theory Spec2Isabelle
  imports Main "HOL-Library.AList"
begin

section \<open>Data shared by the services\<close>

text \<open>
  The services exchange Python dictionaries that are serialised with \<open>json.dumps\<close> and read
  back with \<open>json.loads\<close>. A dictionary keeps its keys in insertion order and holds each key
  once, so it is an association list: \<open>AList.update\<close> overwrites an existing key in place
  and appends a new one, as \<open>d[k] = v\<close> does, and \<open>AList.delete\<close> is \<open>del d[k]\<close>.
\<close>

datatype json =
    JNull
  | JBool bool
  | JInt int
  | JStr string
  | JArr "json list"
  | JObj "(string \<times> json) list"

type_synonym dict = "(string \<times> json) list"

datatype py_error = KeyError string | IndexError | TypeError | IOError | ValueError | ConnectionError

section \<open>services/did\_services.py: the DIDComm envelope codec\<close>

text \<open>
  \<^verbatim>\<open>return {**message, "encrypted": True, "sender_key": sender_key, "recipient_key": recipient_key}\<close>
\<close>

definition encrypt_didcomm_message :: "dict \<Rightarrow> string \<Rightarrow> string \<Rightarrow> dict" where
  "encrypt_didcomm_message message sender_key recipient_key =
     AList.update ''recipient_key'' (JStr recipient_key)
       (AList.update ''sender_key'' (JStr sender_key)
         (AList.update ''encrypted'' (JBool True) message))"

text \<open>\<open>del d[k]\<close> raises \<open>KeyError\<close> when the key is absent.\<close>

definition del_key :: "string \<Rightarrow> dict \<Rightarrow> py_error + dict" where
  "del_key k d = (if map_of d k = None then Inl (KeyError k) else Inr (AList.delete k d))"

text \<open>
  \<^verbatim>\<open>message = encrypted_message.copy()
  del message["encrypted"]; del message["sender_key"]; del message["recipient_key"]
  return message\<close>
\<close>

definition decrypt_didcomm_message :: "dict \<Rightarrow> string \<Rightarrow> py_error + dict" where
  "decrypt_didcomm_message encrypted_message decryption_key =
     (case del_key ''encrypted'' encrypted_message of
        Inl e \<Rightarrow> Inl e
      | Inr m1 \<Rightarrow>
          (case del_key ''sender_key'' m1 of
             Inl e \<Rightarrow> Inl e
           | Inr m2 \<Rightarrow> del_key ''recipient_key'' m2))"

section \<open>services/wallet\_service.py: policies and the block list\<close>

record policy =
  share_with :: "string list"
  requires_consent :: bool
  auto_share_emergency :: bool

record blocked_user =
  blocked_did :: string
  blocked_at :: string
  blocked_reason :: string

record wallet =
  w_did :: string
  w_type :: string
  policies :: "(string \<times> policy) list"
  shared_data :: dict
  pending_requests :: "dict list"

record wallet_service =
  wallets :: "(string \<times> wallet) list"
  notifications :: "(string \<times> dict list) list"
  messages :: "(string \<times> dict list) list"
  blocked_users :: "(string \<times> blocked_user list) list"

text \<open>
  A wallet and a policy are dictionaries with the keys that \<open>create_wallet\<close> and
  \<open>default_policies\<close> give them, so they are records here.
  \<open>check_permission\<close> returns a \<open>bool\<close>: \<open>True\<close> is the automatic approval, and a denial
  and a request that still needs consent are both \<open>False\<close>.
\<close>

definition check_permission ::
    "wallet_service \<Rightarrow> string \<Rightarrow> string \<Rightarrow> string \<Rightarrow> bool \<Rightarrow> bool" where
  "check_permission ws requester_type owner_did data_type is_emergency =
     (case map_of (wallets ws) owner_did of
        None \<Rightarrow> False
      | Some w \<Rightarrow>
          (case map_of (policies w) data_type of
             None \<Rightarrow> False
           | Some p \<Rightarrow>
               if is_emergency \<and> auto_share_emergency p then True
               else if requester_type \<notin> set (share_with p) then False
               else if requires_consent p \<and> \<not> is_emergency then False
               else True))"

text \<open>
  The specification's wording of the same decision, with its three outcomes, to be compared
  with the function above.
\<close>

datatype outcome = AutoApproved | AutoDenied | NeedsWalletApproval

definition checkPermission_spec :: "string \<Rightarrow> bool \<Rightarrow> policy \<Rightarrow> outcome" where
  "checkPermission_spec requesterType isEmergency p =
     (if isEmergency \<and> auto_share_emergency p then AutoApproved
      else if requesterType \<notin> set (share_with p) then AutoDenied
      else if requires_consent p \<and> \<not> isEmergency then NeedsWalletApproval
      else AutoApproved)"









section \<open>The ledger as the services see it\<close>

text \<open>
  Modelled from the spec: the smart contract (its Solidity source and ABI are not among the
  sources), as the function surface of the specification's section 6 and the calls in
  \<open>services/blockchain_service.py\<close> use it: \<open>users(address)\<close> and \<open>registerUser\<close>,
  \<open>didDocuments(id)\<close> and \<open>storeDIDDocument\<close>, \<open>getCredential\<close> and \<open>storeCredential\<close>,
  \<open>recordInteraction\<close> and \<open>getEntityInteractions\<close>.
  The smart contract and the node are outside the repository; the services reach them
  through \<open>web3\<close> calls only. The record below holds the contract's storage that those
  calls read and write, together with the answers of the node that the code cannot
  influence: \<open>eth_balance\<close> lists the balance that \<open>get_balance\<close> answers for an
  account (the call raises for an account without an entry, as it does when the node is
  unreachable), \<open>users_raising\<close> lists the addresses for which the call of \<open>users\<close>
  raises, \<open>reads_raising\<close> the identifiers for which a document or credential read
  raises, and \<open>failing_txs\<close> the transactions that are not mined with status 1 (sending
  raises, or the contract reverts).
\<close>

record user =
  user_name :: string
  user_type_id :: nat
  user_entity_did :: string
  user_wallet_did :: string

record interaction =
  source_address :: string
  destination_address :: string
  source_identifier :: string
  destination_identifier :: string
  interaction_type :: string
  payload :: json

datatype tx =
    StoreDIDDocument string
  | RegisterUser string
  | RecordInteraction string

record ledger =
  users :: "(string \<times> user) list"
  didDocuments :: "(string \<times> json) list"
  credentials :: "(string \<times> json) list"
  interactions :: "interaction list"
  eth_balance :: "(string \<times> int) list"
  users_raising :: "string list"
  reads_raising :: "string list"
  failing_txs :: "tx list"

text \<open>An address is registered when the contract's \<open>users\<close> mapping holds a user for it.\<close>

definition registered :: "ledger \<Rightarrow> string \<Rightarrow> bool" where
  "registered l a = (map_of (users l) a \<noteq> None)"

text \<open>
  \<open>BlockchainService.is_address_registered\<close>: the \<open>isRegistered\<close> field of
  \<open>users(address)\<close>; any exception of the call is caught and answered with \<open>False\<close>.
\<close>

definition is_address_registered :: "ledger \<Rightarrow> string \<Rightarrow> bool" where
  "is_address_registered l a = (if a \<in> set (users_raising l) then False else registered l a)"

section \<open>services/address\_manager.py\<close>

record address_data =
  address :: string
  private_key :: string

record addresses =
  available :: "address_data list"
  used :: "(string \<times> address_data) list"

text \<open>
  \<open>self.addresses\<close> and the file \<open>data/addresses.json\<close> (\<open>None\<close> while it does not
  exist). The file is written by \<open>json.dump\<close> only, so reading it back gives the value
  that was written.
\<close>

record address_manager =
  pool :: addresses
  addresses_file :: "addresses option"

definition test_accounts :: "address_data list" where
  "test_accounts =
    [\<lparr>address = ''0x54b99Dc1C2f505CF0fAA465eCdA78c872b3749cC'',
      private_key = ''0xd09777239f86e807e5fbd5db02fe4cff51dcbc77b598dfcea6c62aea4117acd8''\<rparr>,
     \<lparr>address = ''0xF86C6fD8d11Bd7a5C4F19301BA6ab4Da0B69B206'',
      private_key = ''0xf30129e3a83a00cc00ffd35f43e6736102a64996074a01ea92abe12767e5fa4f''\<rparr>,
     \<lparr>address = ''0x53799B8c448521A6bA35CC4C78DD66dD804ce8a8'',
      private_key = ''0x319b7d2ee2f737787132c25e23a165467ae9f33e894bd27c80a840506b38014c''\<rparr>,
     \<lparr>address = ''0xdc2190cF7895688D2FEE20716cB7dD6dEBB30b56'',
      private_key = ''0x17fb49e5ec17ca0be9600cc9bc20fe953620c98cd50ddb3ca64296a158f5e089''\<rparr>,
     \<lparr>address = ''0x71980E1D5E4f176ADFE7bd90b968045B389274c7'',
      private_key = ''0x0350589197961a95ce7b2f20c6572e2935e2d1b71ea148cb8db115bd529dd0cf''\<rparr>,
     \<lparr>address = ''0x1A23AD04C94FEEe69d12b9F95b1F83fff0B6EB23'',
      private_key = ''0xe99d4ee80bde64c73c7677e8eea1290f3bf8141de6d1cbe6554f4ff22900b7cc''\<rparr>,
     \<lparr>address = ''0xA6b36a8E07e04F1295E609bc523fb9bC21900Bf1'',
      private_key = ''0xf3b9e5106823ff4393427367423ced5d74c8e8ffed38266d16808502e99b123b''\<rparr>,
     \<lparr>address = ''0x44E4947b4E64DB6AE0697F7fc479f0BC7ec70CC7'',
      private_key = ''0xe1d9daa75524b61b8abd701ccdc9d16b8bea6397ae9bf6df0fe91d90f4841516''\<rparr>,
     \<lparr>address = ''0xCDc10fDFBfF34Cb71180857D89756639799Ba78d'',
      private_key = ''0xb69bcb1262256040a2e1f90c31245a0d89664e20402bd8a7595c5ff7b01d0c07''\<rparr>,
     \<lparr>address = ''0xF8a4c9d195B8Fcc4d453daB43afF54ba93d36311'',
      private_key = ''0x5edc5c96c4cd7e3e3378664d1380063df70fee8d539356650d2dd9b8262bad47''\<rparr>]"

text \<open>\<open>_save_addresses\<close>: dump \<open>self.addresses\<close> to the file.\<close>

definition save_addresses :: "addresses \<Rightarrow> address_manager" where
  "save_addresses a = \<lparr>pool = a, addresses_file = Some a\<rparr>"

text \<open>
  The loop of \<open>_load_addresses\<close> over the test accounts. An account whose address is bound
  is skipped before any call; for the others \<open>get_balance\<close> may raise, which leaves the
  loop (\<open>None\<close>); an account with a positive balance that \<open>is_address_registered\<close> does
  not report is appended to the available pool.
\<close>

fun scan_accounts :: "ledger \<Rightarrow> string list \<Rightarrow> address_data list \<Rightarrow> address_data list option" where
  "scan_accounts l used_addresses [] = Some []"
| "scan_accounts l used_addresses (account # rest) =
     (if address account \<in> set used_addresses then scan_accounts l used_addresses rest
      else
        (case map_of (eth_balance l) (address account) of
           None \<Rightarrow> None
         | Some balance \<Rightarrow>
             (case scan_accounts l used_addresses rest of
                None \<Rightarrow> None
              | Some found \<Rightarrow>
                  if balance > 0 \<and> \<not> is_address_registered l (address account)
                  then Some (account # found) else Some found)))"

text \<open>
  \<open>_load_addresses\<close>: start from an empty pool, take the bindings from the file when it
  exists, rebuild the available pool and save. On an exception the pool is reset to empty,
  bindings included, and saved.
\<close>

definition load_addresses :: "ledger \<Rightarrow> address_manager \<Rightarrow> address_manager" where
  "load_addresses l am =
     (let stored_used = (case addresses_file am of Some stored \<Rightarrow> used stored | None \<Rightarrow> []);
          used_addresses = map (address \<circ> snd) stored_used
      in case scan_accounts l used_addresses test_accounts of
           None \<Rightarrow> save_addresses \<lparr>available = [], used = []\<rparr>
         | Some found \<Rightarrow> save_addresses \<lparr>available = found, used = stored_used\<rparr>)"

text \<open>The two places of \<open>get_address\<close> that pop the head of the available pool.\<close>

definition assign_address ::
    "string \<Rightarrow> address_manager \<Rightarrow> (string \<times> string) option \<times> address_manager" where
  "assign_address user_id am =
     (case available (pool am) of
        [] \<Rightarrow> (None, am)
      | address_data # rest \<Rightarrow>
          (Some (address address_data, private_key address_data),
           save_addresses \<lparr>available = rest,
             used = AList.update user_id address_data (used (pool am))\<rparr>))"

definition get_address ::
    "ledger \<Rightarrow> string \<Rightarrow> address_manager \<Rightarrow> (string \<times> string) option \<times> address_manager" where
  "get_address l user_id am =
     (case map_of (used (pool am)) user_id of
        Some bound \<Rightarrow> (Some (address bound, private_key bound), am)
      | None \<Rightarrow>
          if available (pool am) \<noteq> [] then assign_address user_id am
          else assign_address user_id (load_addresses l am))"

text \<open>
  \<open>release_address\<close>: the binding is popped from \<open>used\<close> first; the address goes back to
  the available pool unless \<open>is_address_registered\<close> reports it; the pool is saved. An
  unknown \<open>user_id\<close> changes nothing and saves nothing.
\<close>

definition release_address :: "ledger \<Rightarrow> string \<Rightarrow> address_manager \<Rightarrow> address_manager" where
  "release_address l user_id am =
     (case map_of (used (pool am)) user_id of
        None \<Rightarrow> am
      | Some address_data \<Rightarrow>
          save_addresses
            \<lparr>available =
               (if \<not> is_address_registered l (address address_data)
                then available (pool am) @ [address_data] else available (pool am)),
             used = AList.delete user_id (used (pool am))\<rparr>)"






section \<open>services/blockchain\_service.py\<close>

text \<open>Python's truth value of a JSON value: \<open>None\<close>, \<open>False\<close>, \<open>0\<close> and empty containers are false.\<close>

fun truthy :: "json \<Rightarrow> bool" where
  "truthy JNull = False"
| "truthy (JBool b) = b"
| "truthy (JInt i) = (i \<noteq> 0)"
| "truthy (JStr s) = (s \<noteq> [])"
| "truthy (JArr xs) = (xs \<noteq> [])"
| "truthy (JObj d) = (d \<noteq> [])"

text \<open>\<open>str.upper\<close> and \<open>str.lower\<close> on ASCII letters.\<close>

definition upper_char :: "char \<Rightarrow> char" where
  "upper_char c =
     (case map_of (zip ''abcdefghijklmnopqrstuvwxyz'' ''ABCDEFGHIJKLMNOPQRSTUVWXYZ'') c of
        Some u \<Rightarrow> u | None \<Rightarrow> c)"


definition upper :: "string \<Rightarrow> string" where
  "upper s = map upper_char s"


text \<open>The enum \<open>UserType\<close>, looked up by name: \<open>UserType[user_type.upper().replace(' ', '_')]\<close>.\<close>

definition UserType :: "(string \<times> nat) list" where
  "UserType = [(''INDIVIDUAL'', 0), (''MECHANIC'', 1), (''INSURANCE_PROVIDER'', 2),
     (''ROADSIDE_UNIT'', 3), (''VEHICLE_MANUFACTURER'', 4), (''CAR'', 5)]"

definition user_type_key :: "string \<Rightarrow> string" where
  "user_type_key user_type = map (\<lambda>c. if c = CHR '' '' then CHR ''_'' else c) (upper user_type)"

text \<open>
  \<open>store_did_document\<close>: \<open>True\<close> when the transaction is mined with status 1, and then the
  contract holds the document; \<open>False\<close> on status 0 and on any exception.
\<close>

definition store_did_document :: "ledger \<Rightarrow> string \<Rightarrow> json \<Rightarrow> bool \<times> ledger" where
  "store_did_document l did document =
     (if StoreDIDDocument did \<in> set (failing_txs l) then (False, l)
      else (True, l\<lparr>didDocuments := AList.update did document (didDocuments l)\<rparr>))"

definition get_user_type_name :: "nat \<Rightarrow> string" where
  "get_user_type_name type_id =
     (case map_of [(0, ''Individual''), (1, ''Mechanic''), (2, ''Insurance Provider''),
        (3, ''Roadside Unit''), (4, ''Vehicle Manufacturer'')] type_id of
        Some n \<Rightarrow> n | None \<Rightarrow> ''Unknown'')"

text \<open>
  The second half of \<open>get_did_document\<close>: without a stored document, the registered
  addresses are searched for a user whose entity DID is the one asked for, and a document is
  built from the user's data. A call of \<open>users\<close> that raises ends the search with \<open>None\<close>.
  The \<open>service\<close> list stays empty: the field read as service data is the \<open>isRegistered\<close>
  flag, whose text is no JSON.
\<close>

fun document_from_users :: "ledger \<Rightarrow> string \<Rightarrow> (string \<times> user) list \<Rightarrow> json option" where
  "document_from_users l did [] = None"
| "document_from_users l did ((a, u) # rest) =
     (if a \<in> set (users_raising l) then None
      else if user_entity_did u = did then
        Some (JObj [(''@context'', JArr [JStr ''https://www.w3.org/ns/did/v1'']),
          (''id'', JStr did), (''controller'', JStr a),
          (''type'', JStr (get_user_type_name (user_type_id u))),
          (''name'', JStr (user_name u)), (''entityDid'', JStr (user_entity_did u)),
          (''walletDid'', JStr (user_wallet_did u)), (''service'', JArr [])])
      else document_from_users l did rest)"

text \<open>
  \<open>BlockchainService.get_did_document\<close>. The contract keeps the text written by
  \<open>json.dumps\<close>, which \<open>json.loads\<close> reads back; the model keeps the JSON value.
\<close>

definition get_did_document :: "ledger \<Rightarrow> string \<Rightarrow> json option" where
  "get_did_document l did =
     (if did \<in> set (reads_raising l) then None
      else
        (case map_of (didDocuments l) did of
           Some doc \<Rightarrow> Some doc
         | None \<Rightarrow> document_from_users l did (users l)))"

text \<open>
  \<open>register_user\<close> for the service's account: the type name must be one of the enum, the
  account must not be registered yet, and the transaction must be mined. Every exception is
  caught and reported as a failure; a message built from the exception's text is shortened
  to \<open>Error\<close>.
\<close>

definition register_user ::
    "ledger \<Rightarrow> string \<Rightarrow> string \<Rightarrow> string \<Rightarrow> string \<Rightarrow> string \<Rightarrow> (bool \<times> string) \<times> ledger" where
  "register_user l account name user_type entity_did wallet_did =
     (case map_of UserType (user_type_key user_type) of
        None \<Rightarrow> ((False, ''Invalid user type''), l)
      | Some user_type_enum \<Rightarrow>
          if account \<in> set (users_raising l) then ((False, ''Error''), l)
          else if registered l account then ((False, ''Address already registered''), l)
          else if RegisterUser entity_did \<in> set (failing_txs l) then ((False, ''Transaction failed''), l)
          else ((True, ''User registered successfully!''),
                l\<lparr>users := users l @ [(account,
                  \<lparr>user_name = name, user_type_id = user_type_enum,
                   user_entity_did = entity_did, user_wallet_did = wallet_did\<rparr>)]\<rparr>))"

text \<open>\<open>get_credential\<close>: the text the contract returns, \<open>None\<close> when the call raises.\<close>

definition get_credential :: "ledger \<Rightarrow> string \<Rightarrow> json option" where
  "get_credential l credential_id =
     (if credential_id \<in> set (reads_raising l) then None
      else map_of (credentials l) credential_id)"

section \<open>services/did\_services.py\<close>

text \<open>
  \<open>DIDWallet\<close>: one folder per DID, named \<open>did.replace(":", "_")\<close>, with the private and
  the public key. Writing raises when the storage is not writable, reading when the folder
  does not exist.
\<close>

record did_wallet =
  key_files :: "(string \<times> string \<times> string) list"
  storage_writable :: bool

definition did_folder :: "string \<Rightarrow> string" where
  "did_folder did = map (\<lambda>c. if c = CHR '':'' then CHR ''_'' else c) did"

definition store_keys :: "did_wallet \<Rightarrow> string \<Rightarrow> string \<Rightarrow> string \<Rightarrow> py_error + did_wallet" where
  "store_keys w did private_pem public_pem =
     (if storage_writable w
      then Inr (w\<lparr>key_files := AList.update (did_folder did) (private_pem, public_pem) (key_files w)\<rparr>)
      else Inl IOError)"

definition get_keys :: "did_wallet \<Rightarrow> string \<Rightarrow> py_error + string \<times> string" where
  "get_keys w did =
     (case map_of (key_files w) (did_folder did) of
        None \<Rightarrow> Inl IOError
      | Some pems \<Rightarrow> Inr pems)"

text \<open>\<open>DIDDocument\<close> and its \<open>to_dict\<close>; \<open>controller\<close> is never set by the services.\<close>

record did_document =
  doc_did :: string
  doc_info :: "json list"
  doc_public_key :: string
  doc_created :: string
  doc_service_endpoints :: "json list"
  doc_type :: "json list"
  doc_credentials :: "json list"

definition DIDDocument :: "string \<Rightarrow> string \<Rightarrow> string \<Rightarrow> did_document" where
  "DIDDocument did public_key created =
     \<lparr>doc_did = did, doc_info = [], doc_public_key = public_key, doc_created = created,
      doc_service_endpoints = [], doc_type = [], doc_credentials = []\<rparr>"

definition to_dict :: "did_document \<Rightarrow> dict" where
  "to_dict d =
     (let key_id = doc_did d @ ''#keys-1'';
          verification_method = JObj [(''id'', JStr key_id), (''type'', JStr ''RsaVerificationKey2018''),
            (''controller'', JStr (doc_did d)), (''publicKeyPem'', JStr (doc_public_key d))]
      in [(''@context'', JArr [JStr ''https://www.w3.org/2018/credentials/v1'',
             JStr ''https://www.w3.org/ns/did/v1'', JStr ''https://w3id.org/security/v1'']),
          (''id'', JStr (doc_did d)),
          (''type'', JArr (doc_type d)),
          (''info'', JArr (doc_info d)),
          (''created'', JStr (doc_created d)),
          (''verificationMethod'', JArr [verification_method]),
          (''authentication'', JArr [JStr key_id]),
          (''assertionMethod'', JArr [JStr key_id]),
          (''credentials'', JArr (doc_credentials d)),
          (''service'', JArr (doc_service_endpoints d))])"

text \<open>
  The state of a \<open>DIDService\<close>: its address manager, the account of
  \<open>self.blockchain_service\<close> (\<open>None\<close> for the configured default account) and its key
  store.
\<close>

record did_service =
  address_manager :: address_manager
  blockchain_account :: "(string \<times> string) option"
  key_store :: did_wallet

text \<open>
  What a call draws from outside: the two UUIDs, the two RSA key pairs (private, public) and
  the creation times of the two documents.
\<close>

record fresh =
  entity_uuid :: string
  wallet_uuid :: string
  entity_keys :: "string \<times> string"
  wallet_keys :: "string \<times> string"
  entity_created :: string
  wallet_created :: string

text \<open>
  The names that \<open>create_did\<close> binds. Its exception handler releases the address only
  \<open>if 'user_id' in locals()\<close>.
\<close>

definition create_did_locals :: "string list" where
  "create_did_locals = [''self'', ''user_type'', ''name'', ''entity_did'', ''wallet_did'',
     ''address_info'', ''address'', ''private_key'', ''blockchain_service'',
     ''entity_private_key'', ''entity_public_key'', ''wallet_private_key'', ''wallet_public_key'',
     ''entity_doc'', ''wallet_doc'', ''success'', ''message'', ''entity_str'', ''status'',
     ''wallet_str'', ''e'']"

definition create_did_except ::
    "ledger \<Rightarrow> did_service \<Rightarrow> string \<Rightarrow> json option \<times> did_service \<times> ledger" where
  "create_did_except l svc entity_did =
     (if ''user_id'' \<in> set create_did_locals
      then (None, svc\<lparr>address_manager := release_address l entity_did (address_manager svc)\<rparr>, l)
      else (None, svc, l))"

text \<open>The last step of \<open>create_did\<close>: link and store the wallet's document.\<close>

definition create_did_wallet_doc ::
    "ledger \<Rightarrow> did_service \<Rightarrow> fresh \<Rightarrow> string \<Rightarrow> string \<Rightarrow> did_document
      \<Rightarrow> json option \<times> did_service \<times> ledger" where
  "create_did_wallet_doc l svc f entity_did wallet_did entity_doc =
     (let wallet_doc = (DIDDocument wallet_did (snd (wallet_keys f)) (wallet_created f))
            \<lparr>doc_service_endpoints := [JObj [(''id'', JStr (entity_did @ ''#entity'')),
                (''type'', JArr [JStr ''WalletService'']),
                (''controller'', JStr entity_did),
                (''serviceEndpoint'', JStr (''https://api.example.org/wallet/'' @ entity_did))]],
              doc_type := [JStr ''VerifiableCredential'', JStr ''Wallet'']\<rparr>;
          (status, l') = store_did_document l wallet_did (JObj (to_dict wallet_doc))
      in if \<not> status
         then (None, svc\<lparr>address_manager := release_address l' entity_did (address_manager svc)\<rparr>, l')
         else (Some (JObj [(''entity_did'', JStr entity_did), (''wallet_did'', JStr wallet_did),
                 (''entity_did_document'', JObj (to_dict entity_doc)),
                 (''wallet_did_document'', JObj (to_dict wallet_doc))]), svc, l'))"

text \<open>The steps of \<open>create_did\<close> after the user is registered.\<close>

definition create_did_documents ::
    "ledger \<Rightarrow> did_service \<Rightarrow> fresh \<Rightarrow> string \<Rightarrow> string \<Rightarrow> json option \<times> did_service \<times> ledger" where
  "create_did_documents l svc f entity_did wallet_did =
     (case store_keys (key_store svc) entity_did (fst (entity_keys f)) (snd (entity_keys f)) of
        Inl e \<Rightarrow> create_did_except l svc entity_did
      | Inr w1 \<Rightarrow>
          (case store_keys w1 wallet_did (fst (wallet_keys f)) (snd (wallet_keys f)) of
             Inl e \<Rightarrow> create_did_except l (svc\<lparr>key_store := w1\<rparr>) entity_did
           | Inr w2 \<Rightarrow>
               (let svc2 = svc\<lparr>key_store := w2\<rparr>;
                    entity_doc = (DIDDocument entity_did (snd (entity_keys f)) (entity_created f))
                      \<lparr>doc_service_endpoints := [JObj [(''id'', JStr (wallet_did @ ''#wallet'')),
                          (''@type'', JArr [JStr ''ServiceEndpoint'']),
                          (''serviceEndpoint'', JStr (''https://api.example.org/wallet/'' @ wallet_did)),
                          (''controller'', JStr entity_did)]],
                        doc_type := [JStr ''Person'', JStr ''VerifiableCredential'']\<rparr>;
                    (status, l') = store_did_document l entity_did (JObj (to_dict entity_doc))
                in if \<not> status
                   then (None,
                     svc2\<lparr>address_manager := release_address l' entity_did (address_manager svc2)\<rparr>, l')
                   else create_did_wallet_doc l' svc2 f entity_did wallet_did entity_doc)))"

text \<open>
  \<open>create_did\<close>: acquire an address for the new entity DID, register the user from that
  address, store the keys and the two documents. The result is \<open>None\<close> on every failure.
\<close>

definition create_did ::
    "ledger \<Rightarrow> did_service \<Rightarrow> string \<Rightarrow> string \<Rightarrow> fresh \<Rightarrow> json option \<times> did_service \<times> ledger" where
  "create_did l svc user_type name f =
     (let entity_did = ''did:ssi:entity:'' @ entity_uuid f;
          wallet_did = ''did:ssi:wallet:'' @ wallet_uuid f;
          (address_info, am) = get_address l entity_did (address_manager svc)
      in case address_info of
           None \<Rightarrow> (None, svc\<lparr>address_manager := am\<rparr>, l)
         | Some (account_address, account_key) \<Rightarrow>
             (let svc1 = svc\<lparr>address_manager := am,
                    blockchain_account := Some (account_address, account_key)\<rparr>;
                  ((success, message), l1) =
                    register_user l account_address name user_type entity_did wallet_did
              in if \<not> success
                 then (None, svc1\<lparr>address_manager := release_address l1 entity_did am\<rparr>, l1)
                 else create_did_documents l1 svc1 f entity_did wallet_did))"

text \<open>
  \<open>set_account_address\<close>: take the DID's address from the pool and make it the account of
  \<open>self.blockchain_service\<close>; without an address the account stays as it is.
\<close>

definition set_account_address :: "ledger \<Rightarrow> did_service \<Rightarrow> string \<Rightarrow> did_service" where
  "set_account_address l svc did =
     (let (address_info, am) = get_address l did (address_manager svc);
          svc1 = svc\<lparr>address_manager := am\<rparr>
      in case address_info of
           None \<Rightarrow> svc1
         | Some (account_address, account_key) \<Rightarrow>
             if account_address = [] \<or> account_key = [] then svc1
             else svc1\<lparr>blockchain_account := Some (account_address, account_key)\<rparr>)"

text \<open>
  \<open>if isinstance(doc, str): doc = json.loads(doc)\<close>. The parser \<open>json.loads\<close> is a
  parameter: \<open>None\<close> is its \<open>JSONDecodeError\<close>.
\<close>

definition parse_if_str :: "(string \<Rightarrow> json option) \<Rightarrow> json \<Rightarrow> json option" where
  "parse_if_str json_loads doc = (case doc of JStr s \<Rightarrow> json_loads s | _ \<Rightarrow> Some doc)"

text \<open>
  \<open>if k not in doc: doc[k] = []\<close> followed by \<open>doc[k].append(x)\<close>. On anything but a
  dictionary whose entry for \<open>k\<close> is absent or a list, one of the two statements raises
  (\<open>None\<close>).
\<close>

definition append_to_list_field :: "string \<Rightarrow> json \<Rightarrow> json \<Rightarrow> json option" where
  "append_to_list_field k x doc =
     (case doc of
        JObj d \<Rightarrow>
          (case map_of d k of
             None \<Rightarrow> Some (JObj (AList.update k (JArr [x]) d))
           | Some (JArr xs) \<Rightarrow> Some (JObj (AList.update k (JArr (xs @ [x])) d))
           | Some _ \<Rightarrow> None)
      | _ \<Rightarrow> None)"

text \<open>
  The ownership transfer on the vehicle's document, from \<open>Initialize info array\<close> to
  \<open>owner_info['owner_did'] = did\<close>: the first block of \<open>info\<close> (an empty one is created
  when there is none) gets the current \<open>owner_did\<close> (\<open>None\<close> when it has none) appended to
  its \<open>previous_owners\<close>, and then the new owner. \<open>None\<close> when a statement raises.
\<close>

definition transfer_ownership :: "string \<Rightarrow> json \<Rightarrow> json option" where
  "transfer_ownership did doc =
     (case doc of
        JObj d \<Rightarrow>
          (case (case map_of d ''info'' of
                   None \<Rightarrow> Some [JObj []]
                 | Some (JArr []) \<Rightarrow> Some [JObj []]
                 | Some (JArr xs) \<Rightarrow> Some xs
                 | Some _ \<Rightarrow> None) of
             Some (JObj owner_info # rest) \<Rightarrow>
               (case (case map_of owner_info ''previous_owners'' of
                        None \<Rightarrow> Some []
                      | Some (JArr ps) \<Rightarrow> Some ps
                      | Some _ \<Rightarrow> None) of
                  None \<Rightarrow> None
                | Some ps \<Rightarrow>
                    (let current = (case map_of owner_info ''owner_did'' of
                                      Some v \<Rightarrow> v | None \<Rightarrow> JNull);
                         owner_info' = AList.update ''owner_did'' (JStr did)
                           (AList.update ''previous_owners'' (JArr (ps @ [current])) owner_info)
                     in Some (JObj (AList.update ''info'' (JArr (JObj owner_info' # rest)) d))))
           | _ \<Rightarrow> None)
      | _ \<Rightarrow> None)"

text \<open>
  \<open>update_did_document(did, car_did, credential)\<close> and its three modes. The result is
  \<open>Some True\<close> (the status of the store) or \<open>None\<close>.
\<close>

definition update_owner_info ::
    "(string \<Rightarrow> json option) \<Rightarrow> ledger \<Rightarrow> did_service \<Rightarrow> string \<Rightarrow> json
      \<Rightarrow> bool option \<times> did_service \<times> ledger" where
  "update_owner_info json_loads l svc did credential =
     (let svc1 = set_account_address l svc did;
          released = svc1\<lparr>address_manager := release_address l did (address_manager svc1)\<rparr>
      in case get_did_document l did of
           None \<Rightarrow> (None, released, l)
         | Some owner_doc \<Rightarrow>
             if \<not> truthy owner_doc then (None, released, l)
             else
               (case parse_if_str json_loads owner_doc of
                  None \<Rightarrow> (None, svc1, l)
                | Some doc \<Rightarrow>
                    (case append_to_list_field ''info'' credential doc of
                       None \<Rightarrow> (None, svc1, l)
                     | Some doc' \<Rightarrow>
                         (let (status, l') = store_did_document l did doc'
                          in (if status then Some True else None, svc1, l')))))"

definition update_credentials ::
    "(string \<Rightarrow> json option) \<Rightarrow> ledger \<Rightarrow> did_service \<Rightarrow> string \<Rightarrow> json
      \<Rightarrow> bool option \<times> did_service \<times> ledger" where
  "update_credentials json_loads l svc did credential =
     (let svc1 = set_account_address l svc did
      in case get_did_document l did of
           None \<Rightarrow> (None, svc1, l)
         | Some did_doc \<Rightarrow>
             if \<not> truthy did_doc then (None, svc1, l)
             else
               (case parse_if_str json_loads did_doc of
                  None \<Rightarrow> (None, svc1, l)
                | Some doc \<Rightarrow>
                    (case append_to_list_field ''credentials'' credential doc of
                       None \<Rightarrow> (None, svc1, l)
                     | Some doc' \<Rightarrow>
                         (let (status, l') = store_did_document l did doc'
                          in (if status then Some True else None, svc1, l')))))"

definition update_vehicle_owner ::
    "(string \<Rightarrow> json option) \<Rightarrow> ledger \<Rightarrow> did_service \<Rightarrow> string \<Rightarrow> string
      \<Rightarrow> bool option \<times> did_service \<times> ledger" where
  "update_vehicle_owner json_loads l svc did car_did =
     (let svc1 = set_account_address l svc car_did
      in case get_did_document l car_did of
           None \<Rightarrow> (None, svc1, l)
         | Some did_doc \<Rightarrow>
             if \<not> truthy did_doc then (None, svc1, l)
             else
               (case parse_if_str json_loads did_doc of
                  None \<Rightarrow> (None, svc1, l)
                | Some doc \<Rightarrow>
                    (case transfer_ownership did doc of
                       None \<Rightarrow> (None, svc1, l)
                     | Some doc' \<Rightarrow>
                         (let (status, l') = store_did_document l car_did doc'
                          in (if status then Some True else None, svc1, l')))))"

definition update_did_document ::
    "(string \<Rightarrow> json option) \<Rightarrow> ledger \<Rightarrow> did_service \<Rightarrow> string \<Rightarrow> string option \<Rightarrow> json
      \<Rightarrow> bool option \<times> did_service \<times> ledger" where
  "update_did_document json_loads l svc did car_did credential =
     (case car_did of
        None \<Rightarrow> update_owner_info json_loads l svc did credential
      | Some car \<Rightarrow>
          if car = [] then update_owner_info json_loads l svc did credential
          else if truthy credential then update_credentials json_loads l svc did credential
          else update_vehicle_owner json_loads l svc did car)"

text \<open>
  Successive ownership transfers of one vehicle, each a call
  \<open>update_did_document(did=new_owner, car_did=car)\<close> on the state the previous call left.
\<close>

definition transfer_all ::
    "(string \<Rightarrow> json option) \<Rightarrow> string \<Rightarrow> string list \<Rightarrow> did_service \<times> ledger
      \<Rightarrow> did_service \<times> ledger" where
  "transfer_all json_loads car owners =
     fold (\<lambda>new_owner (svc, l).
        snd (update_did_document json_loads l svc new_owner (Some car) JNull)) owners"

text \<open>
  Reading a stored vehicle document: the first block of its \<open>info\<close>, and in that block the
  list \<open>previous_owners\<close> and the value of \<open>owner_did\<close>.
\<close>

definition owner_info_of :: "ledger \<Rightarrow> string \<Rightarrow> dict option" where
  "owner_info_of l car =
     (case map_of (didDocuments l) car of
        Some (JObj d) \<Rightarrow>
          (case map_of d ''info'' of
             Some (JArr (JObj owner_info # rest)) \<Rightarrow> Some owner_info
           | _ \<Rightarrow> None)
      | _ \<Rightarrow> None)"

definition previous_owners_of :: "dict \<Rightarrow> json list" where
  "previous_owners_of owner_info =
     (case map_of owner_info ''previous_owners'' of Some (JArr ps) \<Rightarrow> ps | _ \<Rightarrow> [])"

definition owner_did_of :: "dict \<Rightarrow> json" where
  "owner_did_of owner_info =
     (case map_of owner_info ''owner_did'' of Some v \<Rightarrow> v | None \<Rightarrow> JNull)"

text \<open>\<open>{"id": subject_did, **claims}\<close>: the entries of \<open>claims\<close> are set one after the other.\<close>

definition dict_merge :: "dict \<Rightarrow> dict \<Rightarrow> dict" where
  "dict_merge base extra = fold (\<lambda>(k, v). AList.update k v) extra base"

text \<open>
  What issuing a credential draws from outside: the UUID, the two time stamps, and the
  Base64 text of the RSA-PSS signature that \<open>sign_message\<close> computes for the serialised
  credential (the signature is salted, so it is not a function of key and message;
  \<open>None\<close>: signing raises).
\<close>

record issuance =
  credential_uuid :: string
  issuance_date :: string
  proof_created :: string
  signature_value :: "string option"

text \<open>
  \<open>create_credential\<close>: the credential is built from its fields, signed with the issuer's
  key, given its \<open>proof\<close> and stored with \<open>store_did_document\<close> under its id. Every
  failure gives \<open>None\<close>. The signed message is \<open>json.dumps\<close> of the credential before the
  proof is added.
\<close>

definition credential_body :: "string \<Rightarrow> string \<Rightarrow> string \<Rightarrow> dict \<Rightarrow> string \<Rightarrow> dict" where
  "credential_body credential_id issuer_did subject_did claims issued =
     [(''@context'', JArr [JStr ''https://www.w3.org/2018/credentials/v1'',
         JStr ''https://www.w3.org/2018/credentials/examples/v1'']),
      (''id'', JStr credential_id),
      (''type'', JArr (JStr ''VerifiableCredential'' #
         (case map_of claims ''type'' of Some t \<Rightarrow> [t] | None \<Rightarrow> []))),
      (''issuer'', JStr issuer_did),
      (''issuanceDate'', JStr issued),
      (''credentialSubject'', JObj (dict_merge [(''id'', JStr subject_did)] claims))]"

definition create_credential ::
    "ledger \<Rightarrow> did_service \<Rightarrow> string \<Rightarrow> string \<Rightarrow> dict \<Rightarrow> issuance
      \<Rightarrow> json option \<times> did_service \<times> ledger" where
  "create_credential l svc issuer_did subject_did claims iss =
     (let (address_info, am) = get_address l issuer_did (address_manager svc);
          svc1 = svc\<lparr>address_manager := am\<rparr>
      in case address_info of
           None \<Rightarrow> (None, svc1, l)
         | Some (account_address, account_key) \<Rightarrow>
             (case get_keys (key_store svc1) issuer_did of
                Inl e \<Rightarrow> (None, svc1, l)
              | Inr (private_key_pem, public_key_pem) \<Rightarrow>
                  (let credential_id = ''did:ssi:credential:'' @ credential_uuid iss;
                       credential = credential_body credential_id issuer_did subject_did claims
                         (issuance_date iss)
                   in case signature_value iss of
                        None \<Rightarrow> (None, svc1, l)
                      | Some signature \<Rightarrow>
                          (let signed = AList.update ''proof''
                                 (JObj [(''type'', JStr ''RsaSignature2018''),
                                    (''created'', JStr (proof_created iss)),
                                    (''verificationMethod'', JStr (issuer_did @ ''#keys-1'')),
                                    (''signatureValue'', JStr signature)]) credential;
                               (status, l') = store_did_document l credential_id (JObj signed)
                           in if \<not> status then (None, svc1, l')
                              else (Some (JObj signed), svc1, l')))))"

text \<open>
  \<open>verify_credential\<close>: the credential that \<open>get_credential\<close> returns for the id, read with
  \<open>json.loads\<close>, or \<open>None\<close>. The contract keeps the text of a JSON value; the model keeps
  the value.
\<close>

definition verify_credential :: "ledger \<Rightarrow> string \<Rightarrow> json option" where
  "verify_credential l credential_id =
     (case get_credential l credential_id of
        None \<Rightarrow> None
      | Some credential_data \<Rightarrow> Some credential_data)"



section \<open>api/server.py: respond\_to\_request\<close>








text \<open>\<open>str.strip()\<close> on the ASCII white space.\<close>

definition is_space :: "char \<Rightarrow> bool" where
  "is_space c = (c \<in> set [CHR '' '', CHR 0x09, CHR 0x0A, CHR 0x0B, CHR 0x0C, CHR 0x0D,
     CHR 0x1C, CHR 0x1D, CHR 0x1E, CHR 0x1F])"

definition strip :: "string \<Rightarrow> string" where
  "strip s = rev (dropWhile is_space (rev (dropWhile is_space s)))"











section \<open>main.py: the vehicle's inbox of mechanic requests\<close>











section \<open>Properties of the envelope codec\<close>

lemma update_absent: "map_of al k = None \<Longrightarrow> AList.update k v al = al @ [(k, v)]"
  by (induction al) (auto split: if_splits)

lemma delete_appended: "map_of al k = None \<Longrightarrow> AList.delete k (al @ [(k, v)]) = al"
  by (induction al) (auto simp: AList.delete_eq split: if_splits)

lemma delete_append: "AList.delete k (xs @ ys) = AList.delete k xs @ AList.delete k ys"
  by (simp add: AList.delete_eq)

lemma map_of_append_other:
  "k' \<noteq> k \<Longrightarrow> map_of (al @ [(k, v)]) k' = map_of al k'"
  by (induction al) auto

lemma encrypt_appends:
  assumes "map_of m ''encrypted'' = None" "map_of m ''sender_key'' = None"
    "map_of m ''recipient_key'' = None"
  shows "encrypt_didcomm_message m s r =
    m @ [(''encrypted'', JBool True), (''sender_key'', JStr s), (''recipient_key'', JStr r)]"
proof -
  let ?m1 = "m @ [(''encrypted'', JBool True)]"
  let ?m2 = "?m1 @ [(''sender_key'', JStr s)]"
  have 1: "AList.update ''encrypted'' (JBool True) m = ?m1"
    using assms(1) by (rule update_absent)
  have "map_of ?m1 ''sender_key'' = None"
    using assms(2) by (simp add: map_of_append_other)
  then have 2: "AList.update ''sender_key'' (JStr s) ?m1 = ?m2"
    by (rule update_absent)
  have "map_of ?m2 ''recipient_key'' = None"
    using assms(3) by (simp add: map_of_append_other)
  then have 3: "AList.update ''recipient_key'' (JStr r) ?m2 = ?m2 @ [(''recipient_key'', JStr r)]"
    by (rule update_absent)
  show ?thesis
    unfolding encrypt_didcomm_message_def 1 2 3 by simp
qed

lemma decrypt_appended:
  assumes "map_of m ''encrypted'' = None" "map_of m ''sender_key'' = None"
    "map_of m ''recipient_key'' = None"
  shows "decrypt_didcomm_message
    (m @ [(''encrypted'', JBool True), (''sender_key'', JStr s), (''recipient_key'', JStr r)]) k
    = Inr m"
proof -
  have n: "''encrypted'' \<notin> fst ` set m" "''sender_key'' \<notin> fst ` set m"
    "''recipient_key'' \<notin> fst ` set m"
    using assms by (simp_all add: map_of_eq_None_iff)
  show ?thesis
    using n by (simp add: decrypt_didcomm_message_def del_key_def delete_append)
qed

text \<open>
  C10. For a message without the keys \<open>encrypted\<close>, \<open>sender_key\<close> and \<open>recipient_key\<close>,
  decrypting the encrypted message gives the message back, whatever the three key strings
  are. Encrypting only appends the three tag fields after the unchanged plaintext fields,
  and the result of decrypting does not depend on the decryption key.
\<close>

theorem didcomm_roundtrip:
  assumes "map_of m ''encrypted'' = None" "map_of m ''sender_key'' = None"
    "map_of m ''recipient_key'' = None"
  shows "decrypt_didcomm_message (encrypt_didcomm_message m s r) k = Inr m
    \<and> encrypt_didcomm_message m s r =
        m @ [(''encrypted'', JBool True), (''sender_key'', JStr s), (''recipient_key'', JStr r)]
    \<and> decrypt_didcomm_message e k = decrypt_didcomm_message e k'"
proof -
  have "decrypt_didcomm_message e k = decrypt_didcomm_message e k'"
    by (simp add: decrypt_didcomm_message_def)
  then show ?thesis
    using assms by (simp add: encrypt_appends decrypt_appended)
qed

theorem didcomm_roundtrip_witness:
  "decrypt_didcomm_message
     (encrypt_didcomm_message [(''type'', JStr ''request''), (''body'', JObj [(''speed'', JInt 60)])]
        ''did:ssi:entity:a#keys-1'' ''did:ssi:entity:b#keys-1'') ''wrong key''
   = Inr [(''type'', JStr ''request''), (''body'', JObj [(''speed'', JInt 60)])]"
proof -
  let ?m = "[(''type'', JStr ''request''), (''body'', JObj [(''speed'', JInt 60)])]"
  have h: "map_of ?m ''encrypted'' = None" "map_of ?m ''sender_key'' = None"
    "map_of ?m ''recipient_key'' = None"
    by simp_all
  show ?thesis
    by (rule didcomm_roundtrip [OF h, THEN conjunct1])
qed

section \<open>Properties of the permission check\<close>

text \<open>
  C4. With the owner's wallet present and a policy stored for the data type, the result of
  \<open>check_permission\<close> is a function of the requester type, the emergency flag and that
  policy alone, with the precedence of the specification: it is \<open>True\<close> exactly when the
  outcome is the automatic approval. For \<open>share_with = {insurance}\<close>, consent required and
  emergency sharing on, requester \<open>insurance\<close> is not approved automatically without an
  emergency (the request needs the wallet's approval) and is approved automatically in an
  emergency.
\<close>

theorem check_permission_precedence:
  assumes "map_of (wallets ws) owner_did = Some w" "map_of (policies w) data_type = Some p"
  shows "check_permission ws requester_type owner_did data_type is_emergency
      = (checkPermission_spec requester_type is_emergency p = AutoApproved)
    \<and> (share_with p = [''insurance''] \<and> requires_consent p \<and> auto_share_emergency p \<longrightarrow>
        checkPermission_spec ''insurance'' False p = NeedsWalletApproval
        \<and> \<not> check_permission ws ''insurance'' owner_did data_type False
        \<and> checkPermission_spec ''insurance'' True p = AutoApproved
        \<and> check_permission ws ''insurance'' owner_did data_type True)"
  using assms by (simp add: check_permission_def checkPermission_spec_def)

theorem check_permission_precedence_witness:
  "\<not> check_permission
      \<lparr>wallets = [(''did:ssi:entity:car'',
          \<lparr>w_did = ''did:ssi:entity:car'', w_type = ''vehicle'',
           policies = [(''driving_behavior'',
             \<lparr>share_with = [''insurance''], requires_consent = True,
              auto_share_emergency = True\<rparr>)],
           shared_data = [], pending_requests = []\<rparr>)],
       notifications = [], messages = [], blocked_users = []\<rparr>
      ''insurance'' ''did:ssi:entity:car'' ''driving_behavior'' False
   \<and> check_permission
      \<lparr>wallets = [(''did:ssi:entity:car'',
          \<lparr>w_did = ''did:ssi:entity:car'', w_type = ''vehicle'',
           policies = [(''driving_behavior'',
             \<lparr>share_with = [''insurance''], requires_consent = True,
              auto_share_emergency = True\<rparr>)],
           shared_data = [], pending_requests = []\<rparr>)],
       notifications = [], messages = [], blocked_users = []\<rparr>
      ''insurance'' ''did:ssi:entity:car'' ''driving_behavior'' True"
proof -
  let ?p = "\<lparr>share_with = [''insurance''], requires_consent = True,
    auto_share_emergency = True\<rparr>"
  let ?w = "\<lparr>w_did = ''did:ssi:entity:car'', w_type = ''vehicle'',
    policies = [(''driving_behavior'', ?p)], shared_data = [], pending_requests = []\<rparr>"
  let ?ws = "\<lparr>wallets = [(''did:ssi:entity:car'', ?w)],
    notifications = [], messages = [], blocked_users = []\<rparr>"
  have h: "map_of (wallets ?ws) ''did:ssi:entity:car'' = Some ?w"
    "map_of (policies ?w) ''driving_behavior'' = Some ?p"
    by simp_all
  have e: "share_with ?p = [''insurance''] \<and> requires_consent ?p \<and> auto_share_emergency ?p"
    by simp
  from check_permission_precedence [OF h, THEN conjunct2, rule_format, OF e]
  show ?thesis by blast
qed

section \<open>Properties of the address pool\<close>










lemma load_addresses_file:
  "addresses_file (load_addresses l am) = Some (pool (load_addresses l am))"
  by (simp add: load_addresses_def Let_def save_addresses_def split: option.splits)








text \<open>
  C8. For an identity that already has a binding in \<open>used\<close>, \<open>get_address\<close> returns the
  bound address and key and leaves the manager (pool and file) unchanged, whatever the ledger
  answers; so after any number of further calls the state is still the same and the next
  call returns the same binding.
\<close>

theorem get_address_idempotent:
  assumes "map_of (used (pool am)) x = Some d"
  shows "get_address l x am = (Some (address d, private_key d), am)
    \<and> fold (\<lambda>l s. snd (get_address l x s)) ls am = am
    \<and> get_address l' x (fold (\<lambda>l s. snd (get_address l x s)) ls am)
        = (Some (address d, private_key d), am)"
proof -
  have g: "\<And>l. get_address l x am = (Some (address d, private_key d), am)"
    using assms by (simp add: get_address_def)
  have f: "fold (\<lambda>l s. snd (get_address l x s)) ls am = am"
    by (induction ls) (simp_all add: g)
  show ?thesis
    by (simp add: g f)
qed

text \<open>
  C5, amended. \<open>release_address\<close> changes nothing when the identity has no binding. When
  the ledger reports the bound address as registered, the address is not returned to the
  available pool, which stays as it was, and the other bindings stay unchanged, but the
  identity's own binding is removed from \<open>used\<close> and the pool is saved to the file.
\<close>

theorem release_address_effect:
  "(map_of (used (pool am)) x = None \<longrightarrow> release_address l x am = am)
   \<and> (map_of (used (pool am)) x = Some d \<and> is_address_registered l (address d) \<longrightarrow>
        available (pool (release_address l x am)) = available (pool am)
        \<and> used (pool (release_address l x am)) = AList.delete x (used (pool am))
        \<and> map_of (used (pool (release_address l x am))) x = None
        \<and> (\<forall>y. y \<noteq> x \<longrightarrow>
              map_of (used (pool (release_address l x am))) y = map_of (used (pool am)) y)
        \<and> addresses_file (release_address l x am) = Some (pool (release_address l x am)))"
  by (simp add: release_address_def save_addresses_def AList.delete_conv')



theorem get_address_idempotent_witness:
  "get_address \<lparr>users = [], didDocuments = [], credentials = [], interactions = [],
      eth_balance = [], users_raising = [], reads_raising = [], failing_txs = []\<rparr> ''did:ssi:entity:alice'' \<lparr>pool = \<lparr>available = [\<lparr>address = ''0xF86C6fD8d11Bd7a5C4F19301BA6ab4Da0B69B206'',
      private_key = ''0xf30129e3a83a00cc00ffd35f43e6736102a64996074a01ea92abe12767e5fa4f''\<rparr>], used = [(''did:ssi:entity:alice'', \<lparr>address = ''0x54b99Dc1C2f505CF0fAA465eCdA78c872b3749cC'',
      private_key = ''0xd09777239f86e807e5fbd5db02fe4cff51dcbc77b598dfcea6c62aea4117acd8''\<rparr>)]\<rparr>, addresses_file = Some \<lparr>available = [\<lparr>address = ''0xF86C6fD8d11Bd7a5C4F19301BA6ab4Da0B69B206'',
      private_key = ''0xf30129e3a83a00cc00ffd35f43e6736102a64996074a01ea92abe12767e5fa4f''\<rparr>], used = [(''did:ssi:entity:alice'', \<lparr>address = ''0x54b99Dc1C2f505CF0fAA465eCdA78c872b3749cC'',
      private_key = ''0xd09777239f86e807e5fbd5db02fe4cff51dcbc77b598dfcea6c62aea4117acd8''\<rparr>)]\<rparr>\<rparr> = (Some (''0x54b99Dc1C2f505CF0fAA465eCdA78c872b3749cC'', ''0xd09777239f86e807e5fbd5db02fe4cff51dcbc77b598dfcea6c62aea4117acd8''), \<lparr>pool = \<lparr>available = [\<lparr>address = ''0xF86C6fD8d11Bd7a5C4F19301BA6ab4Da0B69B206'',
      private_key = ''0xf30129e3a83a00cc00ffd35f43e6736102a64996074a01ea92abe12767e5fa4f''\<rparr>], used = [(''did:ssi:entity:alice'', \<lparr>address = ''0x54b99Dc1C2f505CF0fAA465eCdA78c872b3749cC'',
      private_key = ''0xd09777239f86e807e5fbd5db02fe4cff51dcbc77b598dfcea6c62aea4117acd8''\<rparr>)]\<rparr>, addresses_file = Some \<lparr>available = [\<lparr>address = ''0xF86C6fD8d11Bd7a5C4F19301BA6ab4Da0B69B206'',
      private_key = ''0xf30129e3a83a00cc00ffd35f43e6736102a64996074a01ea92abe12767e5fa4f''\<rparr>], used = [(''did:ssi:entity:alice'', \<lparr>address = ''0x54b99Dc1C2f505CF0fAA465eCdA78c872b3749cC'',
      private_key = ''0xd09777239f86e807e5fbd5db02fe4cff51dcbc77b598dfcea6c62aea4117acd8''\<rparr>)]\<rparr>\<rparr>)
   \<and> get_address \<lparr>users = [], didDocuments = [], credentials = [], interactions = [],
      eth_balance = [], users_raising = [], reads_raising = [], failing_txs = []\<rparr> ''did:ssi:entity:alice'' (snd (get_address \<lparr>users = [(''0x54b99Dc1C2f505CF0fAA465eCdA78c872b3749cC'', \<lparr>user_name = ''Alice'', user_type_id = 0, user_entity_did = ''did:ssi:entity:alice'',
      user_wallet_did = ''did:ssi:wallet:alice''\<rparr>)], didDocuments = [], credentials = [], interactions = [],
      eth_balance = [], users_raising = [], reads_raising = [], failing_txs = []\<rparr> ''did:ssi:entity:alice'' \<lparr>pool = \<lparr>available = [\<lparr>address = ''0xF86C6fD8d11Bd7a5C4F19301BA6ab4Da0B69B206'',
      private_key = ''0xf30129e3a83a00cc00ffd35f43e6736102a64996074a01ea92abe12767e5fa4f''\<rparr>], used = [(''did:ssi:entity:alice'', \<lparr>address = ''0x54b99Dc1C2f505CF0fAA465eCdA78c872b3749cC'',
      private_key = ''0xd09777239f86e807e5fbd5db02fe4cff51dcbc77b598dfcea6c62aea4117acd8''\<rparr>)]\<rparr>, addresses_file = Some \<lparr>available = [\<lparr>address = ''0xF86C6fD8d11Bd7a5C4F19301BA6ab4Da0B69B206'',
      private_key = ''0xf30129e3a83a00cc00ffd35f43e6736102a64996074a01ea92abe12767e5fa4f''\<rparr>], used = [(''did:ssi:entity:alice'', \<lparr>address = ''0x54b99Dc1C2f505CF0fAA465eCdA78c872b3749cC'',
      private_key = ''0xd09777239f86e807e5fbd5db02fe4cff51dcbc77b598dfcea6c62aea4117acd8''\<rparr>)]\<rparr>\<rparr>))
     = (Some (''0x54b99Dc1C2f505CF0fAA465eCdA78c872b3749cC'', ''0xd09777239f86e807e5fbd5db02fe4cff51dcbc77b598dfcea6c62aea4117acd8''), \<lparr>pool = \<lparr>available = [\<lparr>address = ''0xF86C6fD8d11Bd7a5C4F19301BA6ab4Da0B69B206'',
      private_key = ''0xf30129e3a83a00cc00ffd35f43e6736102a64996074a01ea92abe12767e5fa4f''\<rparr>], used = [(''did:ssi:entity:alice'', \<lparr>address = ''0x54b99Dc1C2f505CF0fAA465eCdA78c872b3749cC'',
      private_key = ''0xd09777239f86e807e5fbd5db02fe4cff51dcbc77b598dfcea6c62aea4117acd8''\<rparr>)]\<rparr>, addresses_file = Some \<lparr>available = [\<lparr>address = ''0xF86C6fD8d11Bd7a5C4F19301BA6ab4Da0B69B206'',
      private_key = ''0xf30129e3a83a00cc00ffd35f43e6736102a64996074a01ea92abe12767e5fa4f''\<rparr>], used = [(''did:ssi:entity:alice'', \<lparr>address = ''0x54b99Dc1C2f505CF0fAA465eCdA78c872b3749cC'',
      private_key = ''0xd09777239f86e807e5fbd5db02fe4cff51dcbc77b598dfcea6c62aea4117acd8''\<rparr>)]\<rparr>\<rparr>)"
proof -
  have h: "map_of (used (pool \<lparr>pool = \<lparr>available = [\<lparr>address = ''0xF86C6fD8d11Bd7a5C4F19301BA6ab4Da0B69B206'',
      private_key = ''0xf30129e3a83a00cc00ffd35f43e6736102a64996074a01ea92abe12767e5fa4f''\<rparr>], used = [(''did:ssi:entity:alice'', \<lparr>address = ''0x54b99Dc1C2f505CF0fAA465eCdA78c872b3749cC'',
      private_key = ''0xd09777239f86e807e5fbd5db02fe4cff51dcbc77b598dfcea6c62aea4117acd8''\<rparr>)]\<rparr>, addresses_file = Some \<lparr>available = [\<lparr>address = ''0xF86C6fD8d11Bd7a5C4F19301BA6ab4Da0B69B206'',
      private_key = ''0xf30129e3a83a00cc00ffd35f43e6736102a64996074a01ea92abe12767e5fa4f''\<rparr>], used = [(''did:ssi:entity:alice'', \<lparr>address = ''0x54b99Dc1C2f505CF0fAA465eCdA78c872b3749cC'',
      private_key = ''0xd09777239f86e807e5fbd5db02fe4cff51dcbc77b598dfcea6c62aea4117acd8''\<rparr>)]\<rparr>\<rparr>)) ''did:ssi:entity:alice'' = Some \<lparr>address = ''0x54b99Dc1C2f505CF0fAA465eCdA78c872b3749cC'',
      private_key = ''0xd09777239f86e807e5fbd5db02fe4cff51dcbc77b598dfcea6c62aea4117acd8''\<rparr>"
    by simp
  from get_address_idempotent [OF h, of "\<lparr>users = [], didDocuments = [], credentials = [], interactions = [],
      eth_balance = [], users_raising = [], reads_raising = [], failing_txs = []\<rparr>" "[\<lparr>users = [(''0x54b99Dc1C2f505CF0fAA465eCdA78c872b3749cC'', \<lparr>user_name = ''Alice'', user_type_id = 0, user_entity_did = ''did:ssi:entity:alice'',
      user_wallet_did = ''did:ssi:wallet:alice''\<rparr>)], didDocuments = [], credentials = [], interactions = [],
      eth_balance = [], users_raising = [], reads_raising = [], failing_txs = []\<rparr>]" "\<lparr>users = [], didDocuments = [], credentials = [], interactions = [],
      eth_balance = [], users_raising = [], reads_raising = [], failing_txs = []\<rparr>"]
  show ?thesis by simp
qed

text \<open>
  C5 as stated fails: releasing an identity whose bound address is registered on the ledger
  is not a no-op, since the binding is popped from \<open>used\<close> before the registration check.
\<close>

theorem release_address_registered_counterexample:
  "registered \<lparr>users = [(''0x54b99Dc1C2f505CF0fAA465eCdA78c872b3749cC'', \<lparr>user_name = ''Alice'', user_type_id = 0, user_entity_did = ''did:ssi:entity:alice'',
      user_wallet_did = ''did:ssi:wallet:alice''\<rparr>)], didDocuments = [], credentials = [], interactions = [],
      eth_balance = [], users_raising = [], reads_raising = [], failing_txs = []\<rparr> ''0x54b99Dc1C2f505CF0fAA465eCdA78c872b3749cC''
   \<and> map_of (used (pool \<lparr>pool = \<lparr>available = [\<lparr>address = ''0xF86C6fD8d11Bd7a5C4F19301BA6ab4Da0B69B206'',
      private_key = ''0xf30129e3a83a00cc00ffd35f43e6736102a64996074a01ea92abe12767e5fa4f''\<rparr>], used = [(''did:ssi:entity:alice'', \<lparr>address = ''0x54b99Dc1C2f505CF0fAA465eCdA78c872b3749cC'',
      private_key = ''0xd09777239f86e807e5fbd5db02fe4cff51dcbc77b598dfcea6c62aea4117acd8''\<rparr>)]\<rparr>, addresses_file = Some \<lparr>available = [\<lparr>address = ''0xF86C6fD8d11Bd7a5C4F19301BA6ab4Da0B69B206'',
      private_key = ''0xf30129e3a83a00cc00ffd35f43e6736102a64996074a01ea92abe12767e5fa4f''\<rparr>], used = [(''did:ssi:entity:alice'', \<lparr>address = ''0x54b99Dc1C2f505CF0fAA465eCdA78c872b3749cC'',
      private_key = ''0xd09777239f86e807e5fbd5db02fe4cff51dcbc77b598dfcea6c62aea4117acd8''\<rparr>)]\<rparr>\<rparr>)) ''did:ssi:entity:alice'' = Some \<lparr>address = ''0x54b99Dc1C2f505CF0fAA465eCdA78c872b3749cC'',
      private_key = ''0xd09777239f86e807e5fbd5db02fe4cff51dcbc77b598dfcea6c62aea4117acd8''\<rparr>
   \<and> release_address \<lparr>users = [(''0x54b99Dc1C2f505CF0fAA465eCdA78c872b3749cC'', \<lparr>user_name = ''Alice'', user_type_id = 0, user_entity_did = ''did:ssi:entity:alice'',
      user_wallet_did = ''did:ssi:wallet:alice''\<rparr>)], didDocuments = [], credentials = [], interactions = [],
      eth_balance = [], users_raising = [], reads_raising = [], failing_txs = []\<rparr> ''did:ssi:entity:alice'' \<lparr>pool = \<lparr>available = [\<lparr>address = ''0xF86C6fD8d11Bd7a5C4F19301BA6ab4Da0B69B206'',
      private_key = ''0xf30129e3a83a00cc00ffd35f43e6736102a64996074a01ea92abe12767e5fa4f''\<rparr>], used = [(''did:ssi:entity:alice'', \<lparr>address = ''0x54b99Dc1C2f505CF0fAA465eCdA78c872b3749cC'',
      private_key = ''0xd09777239f86e807e5fbd5db02fe4cff51dcbc77b598dfcea6c62aea4117acd8''\<rparr>)]\<rparr>, addresses_file = Some \<lparr>available = [\<lparr>address = ''0xF86C6fD8d11Bd7a5C4F19301BA6ab4Da0B69B206'',
      private_key = ''0xf30129e3a83a00cc00ffd35f43e6736102a64996074a01ea92abe12767e5fa4f''\<rparr>], used = [(''did:ssi:entity:alice'', \<lparr>address = ''0x54b99Dc1C2f505CF0fAA465eCdA78c872b3749cC'',
      private_key = ''0xd09777239f86e807e5fbd5db02fe4cff51dcbc77b598dfcea6c62aea4117acd8''\<rparr>)]\<rparr>\<rparr> \<noteq> \<lparr>pool = \<lparr>available = [\<lparr>address = ''0xF86C6fD8d11Bd7a5C4F19301BA6ab4Da0B69B206'',
      private_key = ''0xf30129e3a83a00cc00ffd35f43e6736102a64996074a01ea92abe12767e5fa4f''\<rparr>], used = [(''did:ssi:entity:alice'', \<lparr>address = ''0x54b99Dc1C2f505CF0fAA465eCdA78c872b3749cC'',
      private_key = ''0xd09777239f86e807e5fbd5db02fe4cff51dcbc77b598dfcea6c62aea4117acd8''\<rparr>)]\<rparr>, addresses_file = Some \<lparr>available = [\<lparr>address = ''0xF86C6fD8d11Bd7a5C4F19301BA6ab4Da0B69B206'',
      private_key = ''0xf30129e3a83a00cc00ffd35f43e6736102a64996074a01ea92abe12767e5fa4f''\<rparr>], used = [(''did:ssi:entity:alice'', \<lparr>address = ''0x54b99Dc1C2f505CF0fAA465eCdA78c872b3749cC'',
      private_key = ''0xd09777239f86e807e5fbd5db02fe4cff51dcbc77b598dfcea6c62aea4117acd8''\<rparr>)]\<rparr>\<rparr>"
  by (simp add: registered_def release_address_def is_address_registered_def save_addresses_def)

theorem release_address_effect_witness:
  "release_address \<lparr>users = [], didDocuments = [], credentials = [], interactions = [],
      eth_balance = [], users_raising = [], reads_raising = [], failing_txs = []\<rparr> ''did:ssi:entity:bob'' \<lparr>pool = \<lparr>available = [\<lparr>address = ''0xF86C6fD8d11Bd7a5C4F19301BA6ab4Da0B69B206'',
      private_key = ''0xf30129e3a83a00cc00ffd35f43e6736102a64996074a01ea92abe12767e5fa4f''\<rparr>], used = [(''did:ssi:entity:alice'', \<lparr>address = ''0x54b99Dc1C2f505CF0fAA465eCdA78c872b3749cC'',
      private_key = ''0xd09777239f86e807e5fbd5db02fe4cff51dcbc77b598dfcea6c62aea4117acd8''\<rparr>)]\<rparr>, addresses_file = Some \<lparr>available = [\<lparr>address = ''0xF86C6fD8d11Bd7a5C4F19301BA6ab4Da0B69B206'',
      private_key = ''0xf30129e3a83a00cc00ffd35f43e6736102a64996074a01ea92abe12767e5fa4f''\<rparr>], used = [(''did:ssi:entity:alice'', \<lparr>address = ''0x54b99Dc1C2f505CF0fAA465eCdA78c872b3749cC'',
      private_key = ''0xd09777239f86e807e5fbd5db02fe4cff51dcbc77b598dfcea6c62aea4117acd8''\<rparr>)]\<rparr>\<rparr> = \<lparr>pool = \<lparr>available = [\<lparr>address = ''0xF86C6fD8d11Bd7a5C4F19301BA6ab4Da0B69B206'',
      private_key = ''0xf30129e3a83a00cc00ffd35f43e6736102a64996074a01ea92abe12767e5fa4f''\<rparr>], used = [(''did:ssi:entity:alice'', \<lparr>address = ''0x54b99Dc1C2f505CF0fAA465eCdA78c872b3749cC'',
      private_key = ''0xd09777239f86e807e5fbd5db02fe4cff51dcbc77b598dfcea6c62aea4117acd8''\<rparr>)]\<rparr>, addresses_file = Some \<lparr>available = [\<lparr>address = ''0xF86C6fD8d11Bd7a5C4F19301BA6ab4Da0B69B206'',
      private_key = ''0xf30129e3a83a00cc00ffd35f43e6736102a64996074a01ea92abe12767e5fa4f''\<rparr>], used = [(''did:ssi:entity:alice'', \<lparr>address = ''0x54b99Dc1C2f505CF0fAA465eCdA78c872b3749cC'',
      private_key = ''0xd09777239f86e807e5fbd5db02fe4cff51dcbc77b598dfcea6c62aea4117acd8''\<rparr>)]\<rparr>\<rparr>
   \<and> available (pool (release_address \<lparr>users = [(''0x54b99Dc1C2f505CF0fAA465eCdA78c872b3749cC'', \<lparr>user_name = ''Alice'', user_type_id = 0, user_entity_did = ''did:ssi:entity:alice'',
      user_wallet_did = ''did:ssi:wallet:alice''\<rparr>)], didDocuments = [], credentials = [], interactions = [],
      eth_balance = [], users_raising = [], reads_raising = [], failing_txs = []\<rparr> ''did:ssi:entity:alice'' \<lparr>pool = \<lparr>available = [\<lparr>address = ''0xF86C6fD8d11Bd7a5C4F19301BA6ab4Da0B69B206'',
      private_key = ''0xf30129e3a83a00cc00ffd35f43e6736102a64996074a01ea92abe12767e5fa4f''\<rparr>], used = [(''did:ssi:entity:alice'', \<lparr>address = ''0x54b99Dc1C2f505CF0fAA465eCdA78c872b3749cC'',
      private_key = ''0xd09777239f86e807e5fbd5db02fe4cff51dcbc77b598dfcea6c62aea4117acd8''\<rparr>)]\<rparr>, addresses_file = Some \<lparr>available = [\<lparr>address = ''0xF86C6fD8d11Bd7a5C4F19301BA6ab4Da0B69B206'',
      private_key = ''0xf30129e3a83a00cc00ffd35f43e6736102a64996074a01ea92abe12767e5fa4f''\<rparr>], used = [(''did:ssi:entity:alice'', \<lparr>address = ''0x54b99Dc1C2f505CF0fAA465eCdA78c872b3749cC'',
      private_key = ''0xd09777239f86e807e5fbd5db02fe4cff51dcbc77b598dfcea6c62aea4117acd8''\<rparr>)]\<rparr>\<rparr>)) = available (pool \<lparr>pool = \<lparr>available = [\<lparr>address = ''0xF86C6fD8d11Bd7a5C4F19301BA6ab4Da0B69B206'',
      private_key = ''0xf30129e3a83a00cc00ffd35f43e6736102a64996074a01ea92abe12767e5fa4f''\<rparr>], used = [(''did:ssi:entity:alice'', \<lparr>address = ''0x54b99Dc1C2f505CF0fAA465eCdA78c872b3749cC'',
      private_key = ''0xd09777239f86e807e5fbd5db02fe4cff51dcbc77b598dfcea6c62aea4117acd8''\<rparr>)]\<rparr>, addresses_file = Some \<lparr>available = [\<lparr>address = ''0xF86C6fD8d11Bd7a5C4F19301BA6ab4Da0B69B206'',
      private_key = ''0xf30129e3a83a00cc00ffd35f43e6736102a64996074a01ea92abe12767e5fa4f''\<rparr>], used = [(''did:ssi:entity:alice'', \<lparr>address = ''0x54b99Dc1C2f505CF0fAA465eCdA78c872b3749cC'',
      private_key = ''0xd09777239f86e807e5fbd5db02fe4cff51dcbc77b598dfcea6c62aea4117acd8''\<rparr>)]\<rparr>\<rparr>)
   \<and> used (pool (release_address \<lparr>users = [(''0x54b99Dc1C2f505CF0fAA465eCdA78c872b3749cC'', \<lparr>user_name = ''Alice'', user_type_id = 0, user_entity_did = ''did:ssi:entity:alice'',
      user_wallet_did = ''did:ssi:wallet:alice''\<rparr>)], didDocuments = [], credentials = [], interactions = [],
      eth_balance = [], users_raising = [], reads_raising = [], failing_txs = []\<rparr> ''did:ssi:entity:alice'' \<lparr>pool = \<lparr>available = [\<lparr>address = ''0xF86C6fD8d11Bd7a5C4F19301BA6ab4Da0B69B206'',
      private_key = ''0xf30129e3a83a00cc00ffd35f43e6736102a64996074a01ea92abe12767e5fa4f''\<rparr>], used = [(''did:ssi:entity:alice'', \<lparr>address = ''0x54b99Dc1C2f505CF0fAA465eCdA78c872b3749cC'',
      private_key = ''0xd09777239f86e807e5fbd5db02fe4cff51dcbc77b598dfcea6c62aea4117acd8''\<rparr>)]\<rparr>, addresses_file = Some \<lparr>available = [\<lparr>address = ''0xF86C6fD8d11Bd7a5C4F19301BA6ab4Da0B69B206'',
      private_key = ''0xf30129e3a83a00cc00ffd35f43e6736102a64996074a01ea92abe12767e5fa4f''\<rparr>], used = [(''did:ssi:entity:alice'', \<lparr>address = ''0x54b99Dc1C2f505CF0fAA465eCdA78c872b3749cC'',
      private_key = ''0xd09777239f86e807e5fbd5db02fe4cff51dcbc77b598dfcea6c62aea4117acd8''\<rparr>)]\<rparr>\<rparr>)) = []"
proof -
  have h1: "map_of (used (pool \<lparr>pool = \<lparr>available = [\<lparr>address = ''0xF86C6fD8d11Bd7a5C4F19301BA6ab4Da0B69B206'',
      private_key = ''0xf30129e3a83a00cc00ffd35f43e6736102a64996074a01ea92abe12767e5fa4f''\<rparr>], used = [(''did:ssi:entity:alice'', \<lparr>address = ''0x54b99Dc1C2f505CF0fAA465eCdA78c872b3749cC'',
      private_key = ''0xd09777239f86e807e5fbd5db02fe4cff51dcbc77b598dfcea6c62aea4117acd8''\<rparr>)]\<rparr>, addresses_file = Some \<lparr>available = [\<lparr>address = ''0xF86C6fD8d11Bd7a5C4F19301BA6ab4Da0B69B206'',
      private_key = ''0xf30129e3a83a00cc00ffd35f43e6736102a64996074a01ea92abe12767e5fa4f''\<rparr>], used = [(''did:ssi:entity:alice'', \<lparr>address = ''0x54b99Dc1C2f505CF0fAA465eCdA78c872b3749cC'',
      private_key = ''0xd09777239f86e807e5fbd5db02fe4cff51dcbc77b598dfcea6c62aea4117acd8''\<rparr>)]\<rparr>\<rparr>)) ''did:ssi:entity:bob'' = None"
    by simp
  have h2: "map_of (used (pool \<lparr>pool = \<lparr>available = [\<lparr>address = ''0xF86C6fD8d11Bd7a5C4F19301BA6ab4Da0B69B206'',
      private_key = ''0xf30129e3a83a00cc00ffd35f43e6736102a64996074a01ea92abe12767e5fa4f''\<rparr>], used = [(''did:ssi:entity:alice'', \<lparr>address = ''0x54b99Dc1C2f505CF0fAA465eCdA78c872b3749cC'',
      private_key = ''0xd09777239f86e807e5fbd5db02fe4cff51dcbc77b598dfcea6c62aea4117acd8''\<rparr>)]\<rparr>, addresses_file = Some \<lparr>available = [\<lparr>address = ''0xF86C6fD8d11Bd7a5C4F19301BA6ab4Da0B69B206'',
      private_key = ''0xf30129e3a83a00cc00ffd35f43e6736102a64996074a01ea92abe12767e5fa4f''\<rparr>], used = [(''did:ssi:entity:alice'', \<lparr>address = ''0x54b99Dc1C2f505CF0fAA465eCdA78c872b3749cC'',
      private_key = ''0xd09777239f86e807e5fbd5db02fe4cff51dcbc77b598dfcea6c62aea4117acd8''\<rparr>)]\<rparr>\<rparr>)) ''did:ssi:entity:alice'' = Some \<lparr>address = ''0x54b99Dc1C2f505CF0fAA465eCdA78c872b3749cC'',
      private_key = ''0xd09777239f86e807e5fbd5db02fe4cff51dcbc77b598dfcea6c62aea4117acd8''\<rparr>
      \<and> is_address_registered \<lparr>users = [(''0x54b99Dc1C2f505CF0fAA465eCdA78c872b3749cC'', \<lparr>user_name = ''Alice'', user_type_id = 0, user_entity_did = ''did:ssi:entity:alice'',
      user_wallet_did = ''did:ssi:wallet:alice''\<rparr>)], didDocuments = [], credentials = [], interactions = [],
      eth_balance = [], users_raising = [], reads_raising = [], failing_txs = []\<rparr> (address \<lparr>address = ''0x54b99Dc1C2f505CF0fAA465eCdA78c872b3749cC'',
      private_key = ''0xd09777239f86e807e5fbd5db02fe4cff51dcbc77b598dfcea6c62aea4117acd8''\<rparr>)"
    by (simp add: is_address_registered_def registered_def)
  from release_address_effect [of "\<lparr>pool = \<lparr>available = [\<lparr>address = ''0xF86C6fD8d11Bd7a5C4F19301BA6ab4Da0B69B206'',
      private_key = ''0xf30129e3a83a00cc00ffd35f43e6736102a64996074a01ea92abe12767e5fa4f''\<rparr>], used = [(''did:ssi:entity:alice'', \<lparr>address = ''0x54b99Dc1C2f505CF0fAA465eCdA78c872b3749cC'',
      private_key = ''0xd09777239f86e807e5fbd5db02fe4cff51dcbc77b598dfcea6c62aea4117acd8''\<rparr>)]\<rparr>, addresses_file = Some \<lparr>available = [\<lparr>address = ''0xF86C6fD8d11Bd7a5C4F19301BA6ab4Da0B69B206'',
      private_key = ''0xf30129e3a83a00cc00ffd35f43e6736102a64996074a01ea92abe12767e5fa4f''\<rparr>], used = [(''did:ssi:entity:alice'', \<lparr>address = ''0x54b99Dc1C2f505CF0fAA465eCdA78c872b3749cC'',
      private_key = ''0xd09777239f86e807e5fbd5db02fe4cff51dcbc77b598dfcea6c62aea4117acd8''\<rparr>)]\<rparr>\<rparr>" "''did:ssi:entity:bob''" "\<lparr>users = [], didDocuments = [], credentials = [], interactions = [],
      eth_balance = [], users_raising = [], reads_raising = [], failing_txs = []\<rparr>" "\<lparr>address = ''0x54b99Dc1C2f505CF0fAA465eCdA78c872b3749cC'',
      private_key = ''0xd09777239f86e807e5fbd5db02fe4cff51dcbc77b598dfcea6c62aea4117acd8''\<rparr>", THEN conjunct1, rule_format, OF h1]
    release_address_effect [of "\<lparr>pool = \<lparr>available = [\<lparr>address = ''0xF86C6fD8d11Bd7a5C4F19301BA6ab4Da0B69B206'',
      private_key = ''0xf30129e3a83a00cc00ffd35f43e6736102a64996074a01ea92abe12767e5fa4f''\<rparr>], used = [(''did:ssi:entity:alice'', \<lparr>address = ''0x54b99Dc1C2f505CF0fAA465eCdA78c872b3749cC'',
      private_key = ''0xd09777239f86e807e5fbd5db02fe4cff51dcbc77b598dfcea6c62aea4117acd8''\<rparr>)]\<rparr>, addresses_file = Some \<lparr>available = [\<lparr>address = ''0xF86C6fD8d11Bd7a5C4F19301BA6ab4Da0B69B206'',
      private_key = ''0xf30129e3a83a00cc00ffd35f43e6736102a64996074a01ea92abe12767e5fa4f''\<rparr>], used = [(''did:ssi:entity:alice'', \<lparr>address = ''0x54b99Dc1C2f505CF0fAA465eCdA78c872b3749cC'',
      private_key = ''0xd09777239f86e807e5fbd5db02fe4cff51dcbc77b598dfcea6c62aea4117acd8''\<rparr>)]\<rparr>\<rparr>" "''did:ssi:entity:alice''" "\<lparr>users = [(''0x54b99Dc1C2f505CF0fAA465eCdA78c872b3749cC'', \<lparr>user_name = ''Alice'', user_type_id = 0, user_entity_did = ''did:ssi:entity:alice'',
      user_wallet_did = ''did:ssi:wallet:alice''\<rparr>)], didDocuments = [], credentials = [], interactions = [],
      eth_balance = [], users_raising = [], reads_raising = [], failing_txs = []\<rparr>" "\<lparr>address = ''0x54b99Dc1C2f505CF0fAA465eCdA78c872b3749cC'',
      private_key = ''0xd09777239f86e807e5fbd5db02fe4cff51dcbc77b598dfcea6c62aea4117acd8''\<rparr>", THEN conjunct2, rule_format, OF h2]
  show ?thesis by simp
qed



section \<open>Properties of create\_did\<close>

lemma get_address_binds:
  assumes "get_address l x am0 = (Some (a, k), am)"
  shows "\<exists>d. map_of (used (pool am)) x = Some d \<and> address d = a \<and> private_key d = k"
  using assms
  by (auto simp: get_address_def assign_address_def save_addresses_def AList.update_conv'
      split: option.splits if_splits list.splits)

lemma register_user_txs: "failing_txs (snd (register_user l a n t e w)) = failing_txs l"
  by (simp add: register_user_def split: option.splits)

lemma release_unbinds:
  "map_of (used (pool am)) x = Some d \<Longrightarrow>
   map_of (used (pool (release_address l x am))) x = None
   \<and> (\<not> is_address_registered l (address d) \<longrightarrow>
        address d \<in> address ` set (available (pool (release_address l x am))))
   \<and> (is_address_registered l (address d) \<longrightarrow>
        available (pool (release_address l x am)) = available (pool am))"
  by (simp add: release_address_def save_addresses_def AList.delete_conv')

text \<open>
  C6, amended. Once \<open>create_did\<close> has acquired an address for the new entity DID and the
  key store is writable, a failure of the user registration, of the storing of the entity
  document or of the storing of the wallet document makes \<open>create_did\<close> return \<open>None\<close>
  after calling \<open>release_address\<close> for the entity DID: the binding is removed from \<open>used\<close>,
  and the address is back in the available pool unless the ledger reports it as registered,
  in which case the available pool is left as it was.
\<close>

theorem create_did_compensation:
  assumes acq: "get_address l (''did:ssi:entity:'' @ entity_uuid f) (address_manager svc)
      = (Some (a, k), am)"
    and wr: "storage_writable (key_store svc)"
    and fail: "\<not> fst (fst (register_user l a name user_type
          (''did:ssi:entity:'' @ entity_uuid f) (''did:ssi:wallet:'' @ wallet_uuid f)))
      \<or> StoreDIDDocument (''did:ssi:entity:'' @ entity_uuid f) \<in> set (failing_txs l)
      \<or> StoreDIDDocument (''did:ssi:wallet:'' @ wallet_uuid f) \<in> set (failing_txs l)"
  shows "\<exists>svc' l'. create_did l svc user_type name f = (None, svc', l')
    \<and> address_manager svc' = release_address l' (''did:ssi:entity:'' @ entity_uuid f) am
    \<and> map_of (used (pool (address_manager svc'))) (''did:ssi:entity:'' @ entity_uuid f) = None
    \<and> (\<not> is_address_registered l' a \<longrightarrow>
          a \<in> address ` set (available (pool (address_manager svc'))))
    \<and> (is_address_registered l' a \<longrightarrow>
          available (pool (address_manager svc')) = available (pool am))"
proof -
  let ?ed = "''did:ssi:entity:'' @ entity_uuid f"
  let ?wd = "''did:ssi:wallet:'' @ wallet_uuid f"
  from get_address_binds [OF acq] obtain d where
    d: "map_of (used (pool am)) ?ed = Some d" "address d = a" "private_key d = k"
    by blast
  have rel: "\<And>l'. map_of (used (pool (release_address l' ?ed am))) ?ed = None
    \<and> (\<not> is_address_registered l' a \<longrightarrow>
          a \<in> address ` set (available (pool (release_address l' ?ed am))))
    \<and> (is_address_registered l' a \<longrightarrow>
          available (pool (release_address l' ?ed am)) = available (pool am))"
    using release_unbinds [OF d(1)] d(2) by simp
  obtain ok msg l1 where reg: "register_user l a name user_type ?ed ?wd = ((ok, msg), l1)"
    by (metis surj_pair)
  have tx: "failing_txs l1 = failing_txs l"
    using register_user_txs [of l a name user_type ?ed ?wd] reg by simp
  show ?thesis
  proof (cases ok)
    case False
    then show ?thesis
      using acq reg rel [of l1] by (simp add: create_did_def Let_def)
  next
    case True
    with fail reg tx have st: "StoreDIDDocument ?ed \<in> set (failing_txs l1)
      \<or> StoreDIDDocument ?wd \<in> set (failing_txs l1)"
      by simp
    show ?thesis
    proof (cases "StoreDIDDocument ?ed \<in> set (failing_txs l1)")
      case True
      then show ?thesis
        using acq reg \<open>ok\<close> wr rel [of l1]
        by (simp add: create_did_def Let_def create_did_documents_def store_keys_def
            store_did_document_def)
    next
      case False
      with st have w: "StoreDIDDocument ?wd \<in> set (failing_txs l1)" by simp
      then show ?thesis
        using acq reg \<open>ok\<close> wr False
          rel [of "l1\<lparr>didDocuments := AList.update ?ed
            (JObj (to_dict ((DIDDocument ?ed (snd (entity_keys f)) (entity_created f))
              \<lparr>doc_service_endpoints := [JObj [(''id'', JStr (?wd @ ''#wallet'')),
                  (''@type'', JArr [JStr ''ServiceEndpoint'']),
                  (''serviceEndpoint'', JStr (''https://api.example.org/wallet/'' @ ?wd)),
                  (''controller'', JStr ?ed)]],
                doc_type := [JStr ''Person'', JStr ''VerifiableCredential'']\<rparr>))) (didDocuments l1)\<rparr>"]
        by (simp add: create_did_def Let_def create_did_documents_def store_keys_def
            store_did_document_def create_did_wallet_doc_def)
    qed
  qed
qed


theorem create_did_compensation_witness:
  "\<exists>svc' l'. create_did \<lparr>users = [], didDocuments = [], credentials = [], interactions = [],
      eth_balance = [], users_raising = [], reads_raising = [], failing_txs = []\<rparr> \<lparr>address_manager = \<lparr>pool = \<lparr>available = [\<lparr>address = ''0x54b99Dc1C2f505CF0fAA465eCdA78c872b3749cC'',
      private_key = ''0xd09777239f86e807e5fbd5db02fe4cff51dcbc77b598dfcea6c62aea4117acd8''\<rparr>, \<lparr>address = ''0xF86C6fD8d11Bd7a5C4F19301BA6ab4Da0B69B206'',
      private_key = ''0xf30129e3a83a00cc00ffd35f43e6736102a64996074a01ea92abe12767e5fa4f''\<rparr>], used = []\<rparr>, addresses_file = Some \<lparr>available = [\<lparr>address = ''0x54b99Dc1C2f505CF0fAA465eCdA78c872b3749cC'',
      private_key = ''0xd09777239f86e807e5fbd5db02fe4cff51dcbc77b598dfcea6c62aea4117acd8''\<rparr>, \<lparr>address = ''0xF86C6fD8d11Bd7a5C4F19301BA6ab4Da0B69B206'',
      private_key = ''0xf30129e3a83a00cc00ffd35f43e6736102a64996074a01ea92abe12767e5fa4f''\<rparr>], used = []\<rparr>\<rparr>, blockchain_account = None,
      key_store = \<lparr>key_files = [], storage_writable = True\<rparr>\<rparr> ''alien'' ''Alice'' \<lparr>entity_uuid = ''u1'', wallet_uuid = ''u2'', entity_keys = (''private 1'', ''public 1''),
      wallet_keys = (''private 2'', ''public 2''), entity_created = ''2024-01-01T00:00:00'',
      wallet_created = ''2024-01-01T00:00:01''\<rparr> = (None, svc', l')
    \<and> map_of (used (pool (address_manager svc'))) ''did:ssi:entity:u1'' = None
    \<and> ''0x54b99Dc1C2f505CF0fAA465eCdA78c872b3749cC'' \<in> address ` set (available (pool (address_manager svc')))"
proof -
  have acq: "get_address \<lparr>users = [], didDocuments = [], credentials = [], interactions = [],
      eth_balance = [], users_raising = [], reads_raising = [], failing_txs = []\<rparr> (''did:ssi:entity:'' @ entity_uuid \<lparr>entity_uuid = ''u1'', wallet_uuid = ''u2'', entity_keys = (''private 1'', ''public 1''),
      wallet_keys = (''private 2'', ''public 2''), entity_created = ''2024-01-01T00:00:00'',
      wallet_created = ''2024-01-01T00:00:01''\<rparr>) (address_manager \<lparr>address_manager = \<lparr>pool = \<lparr>available = [\<lparr>address = ''0x54b99Dc1C2f505CF0fAA465eCdA78c872b3749cC'',
      private_key = ''0xd09777239f86e807e5fbd5db02fe4cff51dcbc77b598dfcea6c62aea4117acd8''\<rparr>, \<lparr>address = ''0xF86C6fD8d11Bd7a5C4F19301BA6ab4Da0B69B206'',
      private_key = ''0xf30129e3a83a00cc00ffd35f43e6736102a64996074a01ea92abe12767e5fa4f''\<rparr>], used = []\<rparr>, addresses_file = Some \<lparr>available = [\<lparr>address = ''0x54b99Dc1C2f505CF0fAA465eCdA78c872b3749cC'',
      private_key = ''0xd09777239f86e807e5fbd5db02fe4cff51dcbc77b598dfcea6c62aea4117acd8''\<rparr>, \<lparr>address = ''0xF86C6fD8d11Bd7a5C4F19301BA6ab4Da0B69B206'',
      private_key = ''0xf30129e3a83a00cc00ffd35f43e6736102a64996074a01ea92abe12767e5fa4f''\<rparr>], used = []\<rparr>\<rparr>, blockchain_account = None,
      key_store = \<lparr>key_files = [], storage_writable = True\<rparr>\<rparr>)
      = (Some (''0x54b99Dc1C2f505CF0fAA465eCdA78c872b3749cC'', ''0xd09777239f86e807e5fbd5db02fe4cff51dcbc77b598dfcea6c62aea4117acd8''), snd (get_address \<lparr>users = [], didDocuments = [], credentials = [], interactions = [],
      eth_balance = [], users_raising = [], reads_raising = [], failing_txs = []\<rparr> (''did:ssi:entity:'' @ entity_uuid \<lparr>entity_uuid = ''u1'', wallet_uuid = ''u2'', entity_keys = (''private 1'', ''public 1''),
      wallet_keys = (''private 2'', ''public 2''), entity_created = ''2024-01-01T00:00:00'',
      wallet_created = ''2024-01-01T00:00:01''\<rparr>) (address_manager \<lparr>address_manager = \<lparr>pool = \<lparr>available = [\<lparr>address = ''0x54b99Dc1C2f505CF0fAA465eCdA78c872b3749cC'',
      private_key = ''0xd09777239f86e807e5fbd5db02fe4cff51dcbc77b598dfcea6c62aea4117acd8''\<rparr>, \<lparr>address = ''0xF86C6fD8d11Bd7a5C4F19301BA6ab4Da0B69B206'',
      private_key = ''0xf30129e3a83a00cc00ffd35f43e6736102a64996074a01ea92abe12767e5fa4f''\<rparr>], used = []\<rparr>, addresses_file = Some \<lparr>available = [\<lparr>address = ''0x54b99Dc1C2f505CF0fAA465eCdA78c872b3749cC'',
      private_key = ''0xd09777239f86e807e5fbd5db02fe4cff51dcbc77b598dfcea6c62aea4117acd8''\<rparr>, \<lparr>address = ''0xF86C6fD8d11Bd7a5C4F19301BA6ab4Da0B69B206'',
      private_key = ''0xf30129e3a83a00cc00ffd35f43e6736102a64996074a01ea92abe12767e5fa4f''\<rparr>], used = []\<rparr>\<rparr>, blockchain_account = None,
      key_store = \<lparr>key_files = [], storage_writable = True\<rparr>\<rparr>)))"
    by (simp add: get_address_def assign_address_def save_addresses_def)
  have wr: "storage_writable (key_store \<lparr>address_manager = \<lparr>pool = \<lparr>available = [\<lparr>address = ''0x54b99Dc1C2f505CF0fAA465eCdA78c872b3749cC'',
      private_key = ''0xd09777239f86e807e5fbd5db02fe4cff51dcbc77b598dfcea6c62aea4117acd8''\<rparr>, \<lparr>address = ''0xF86C6fD8d11Bd7a5C4F19301BA6ab4Da0B69B206'',
      private_key = ''0xf30129e3a83a00cc00ffd35f43e6736102a64996074a01ea92abe12767e5fa4f''\<rparr>], used = []\<rparr>, addresses_file = Some \<lparr>available = [\<lparr>address = ''0x54b99Dc1C2f505CF0fAA465eCdA78c872b3749cC'',
      private_key = ''0xd09777239f86e807e5fbd5db02fe4cff51dcbc77b598dfcea6c62aea4117acd8''\<rparr>, \<lparr>address = ''0xF86C6fD8d11Bd7a5C4F19301BA6ab4Da0B69B206'',
      private_key = ''0xf30129e3a83a00cc00ffd35f43e6736102a64996074a01ea92abe12767e5fa4f''\<rparr>], used = []\<rparr>\<rparr>, blockchain_account = None,
      key_store = \<lparr>key_files = [], storage_writable = True\<rparr>\<rparr>)"
    by simp
  have fail: "\<not> fst (fst (register_user \<lparr>users = [], didDocuments = [], credentials = [], interactions = [],
      eth_balance = [], users_raising = [], reads_raising = [], failing_txs = []\<rparr> ''0x54b99Dc1C2f505CF0fAA465eCdA78c872b3749cC'' ''Alice'' ''alien''
          (''did:ssi:entity:'' @ entity_uuid \<lparr>entity_uuid = ''u1'', wallet_uuid = ''u2'', entity_keys = (''private 1'', ''public 1''),
      wallet_keys = (''private 2'', ''public 2''), entity_created = ''2024-01-01T00:00:00'',
      wallet_created = ''2024-01-01T00:00:01''\<rparr>) (''did:ssi:wallet:'' @ wallet_uuid \<lparr>entity_uuid = ''u1'', wallet_uuid = ''u2'', entity_keys = (''private 1'', ''public 1''),
      wallet_keys = (''private 2'', ''public 2''), entity_created = ''2024-01-01T00:00:00'',
      wallet_created = ''2024-01-01T00:00:01''\<rparr>)))
      \<or> StoreDIDDocument (''did:ssi:entity:'' @ entity_uuid \<lparr>entity_uuid = ''u1'', wallet_uuid = ''u2'', entity_keys = (''private 1'', ''public 1''),
      wallet_keys = (''private 2'', ''public 2''), entity_created = ''2024-01-01T00:00:00'',
      wallet_created = ''2024-01-01T00:00:01''\<rparr>) \<in> set (failing_txs \<lparr>users = [], didDocuments = [], credentials = [], interactions = [],
      eth_balance = [], users_raising = [], reads_raising = [], failing_txs = []\<rparr>)
      \<or> StoreDIDDocument (''did:ssi:wallet:'' @ wallet_uuid \<lparr>entity_uuid = ''u1'', wallet_uuid = ''u2'', entity_keys = (''private 1'', ''public 1''),
      wallet_keys = (''private 2'', ''public 2''), entity_created = ''2024-01-01T00:00:00'',
      wallet_created = ''2024-01-01T00:00:01''\<rparr>) \<in> set (failing_txs \<lparr>users = [], didDocuments = [], credentials = [], interactions = [],
      eth_balance = [], users_raising = [], reads_raising = [], failing_txs = []\<rparr>)"
    by (simp add: register_user_def user_type_key_def upper_def upper_char_def UserType_def)
  from create_did_compensation [OF acq wr fail] obtain svc' l' where
    c: "create_did \<lparr>users = [], didDocuments = [], credentials = [], interactions = [],
      eth_balance = [], users_raising = [], reads_raising = [], failing_txs = []\<rparr> \<lparr>address_manager = \<lparr>pool = \<lparr>available = [\<lparr>address = ''0x54b99Dc1C2f505CF0fAA465eCdA78c872b3749cC'',
      private_key = ''0xd09777239f86e807e5fbd5db02fe4cff51dcbc77b598dfcea6c62aea4117acd8''\<rparr>, \<lparr>address = ''0xF86C6fD8d11Bd7a5C4F19301BA6ab4Da0B69B206'',
      private_key = ''0xf30129e3a83a00cc00ffd35f43e6736102a64996074a01ea92abe12767e5fa4f''\<rparr>], used = []\<rparr>, addresses_file = Some \<lparr>available = [\<lparr>address = ''0x54b99Dc1C2f505CF0fAA465eCdA78c872b3749cC'',
      private_key = ''0xd09777239f86e807e5fbd5db02fe4cff51dcbc77b598dfcea6c62aea4117acd8''\<rparr>, \<lparr>address = ''0xF86C6fD8d11Bd7a5C4F19301BA6ab4Da0B69B206'',
      private_key = ''0xf30129e3a83a00cc00ffd35f43e6736102a64996074a01ea92abe12767e5fa4f''\<rparr>], used = []\<rparr>\<rparr>, blockchain_account = None,
      key_store = \<lparr>key_files = [], storage_writable = True\<rparr>\<rparr> ''alien'' ''Alice'' \<lparr>entity_uuid = ''u1'', wallet_uuid = ''u2'', entity_keys = (''private 1'', ''public 1''),
      wallet_keys = (''private 2'', ''public 2''), entity_created = ''2024-01-01T00:00:00'',
      wallet_created = ''2024-01-01T00:00:01''\<rparr> = (None, svc', l')"
      "map_of (used (pool (address_manager svc'))) (''did:ssi:entity:'' @ entity_uuid \<lparr>entity_uuid = ''u1'', wallet_uuid = ''u2'', entity_keys = (''private 1'', ''public 1''),
      wallet_keys = (''private 2'', ''public 2''), entity_created = ''2024-01-01T00:00:00'',
      wallet_created = ''2024-01-01T00:00:01''\<rparr>) = None"
      "\<not> is_address_registered l' ''0x54b99Dc1C2f505CF0fAA465eCdA78c872b3749cC'' \<longrightarrow>
          ''0x54b99Dc1C2f505CF0fAA465eCdA78c872b3749cC'' \<in> address ` set (available (pool (address_manager svc')))"
    by blast
  have "l' = \<lparr>users = [], didDocuments = [], credentials = [], interactions = [],
      eth_balance = [], users_raising = [], reads_raising = [], failing_txs = []\<rparr>"
    using c(1)
    by (simp add: create_did_def get_address_def assign_address_def save_addresses_def Let_def
        register_user_def user_type_key_def upper_def upper_char_def UserType_def)
  then have "\<not> is_address_registered l' ''0x54b99Dc1C2f505CF0fAA465eCdA78c872b3749cC''"
    by (simp add: is_address_registered_def registered_def)
  with c show ?thesis by auto
qed

text \<open>
  C6 as stated fails: when the user has been registered and the entity document cannot be
  stored, the acquired address is registered on the ledger, and \<open>release_address\<close> does not
  put it back into the available pool.
\<close>

theorem create_did_store_failure_counterexample:
  "fst (get_address \<lparr>users = [], didDocuments = [], credentials = [], interactions = [],
      eth_balance = [], users_raising = [], reads_raising = [], failing_txs = [StoreDIDDocument ''did:ssi:entity:u1'']\<rparr> ''did:ssi:entity:u1'' (address_manager \<lparr>address_manager = \<lparr>pool = \<lparr>available = [\<lparr>address = ''0x54b99Dc1C2f505CF0fAA465eCdA78c872b3749cC'',
      private_key = ''0xd09777239f86e807e5fbd5db02fe4cff51dcbc77b598dfcea6c62aea4117acd8''\<rparr>, \<lparr>address = ''0xF86C6fD8d11Bd7a5C4F19301BA6ab4Da0B69B206'',
      private_key = ''0xf30129e3a83a00cc00ffd35f43e6736102a64996074a01ea92abe12767e5fa4f''\<rparr>], used = []\<rparr>, addresses_file = Some \<lparr>available = [\<lparr>address = ''0x54b99Dc1C2f505CF0fAA465eCdA78c872b3749cC'',
      private_key = ''0xd09777239f86e807e5fbd5db02fe4cff51dcbc77b598dfcea6c62aea4117acd8''\<rparr>, \<lparr>address = ''0xF86C6fD8d11Bd7a5C4F19301BA6ab4Da0B69B206'',
      private_key = ''0xf30129e3a83a00cc00ffd35f43e6736102a64996074a01ea92abe12767e5fa4f''\<rparr>], used = []\<rparr>\<rparr>, blockchain_account = None,
      key_store = \<lparr>key_files = [], storage_writable = True\<rparr>\<rparr>)) = Some (''0x54b99Dc1C2f505CF0fAA465eCdA78c872b3749cC'', ''0xd09777239f86e807e5fbd5db02fe4cff51dcbc77b598dfcea6c62aea4117acd8'')
   \<and> fst (create_did \<lparr>users = [], didDocuments = [], credentials = [], interactions = [],
      eth_balance = [], users_raising = [], reads_raising = [], failing_txs = [StoreDIDDocument ''did:ssi:entity:u1'']\<rparr> \<lparr>address_manager = \<lparr>pool = \<lparr>available = [\<lparr>address = ''0x54b99Dc1C2f505CF0fAA465eCdA78c872b3749cC'',
      private_key = ''0xd09777239f86e807e5fbd5db02fe4cff51dcbc77b598dfcea6c62aea4117acd8''\<rparr>, \<lparr>address = ''0xF86C6fD8d11Bd7a5C4F19301BA6ab4Da0B69B206'',
      private_key = ''0xf30129e3a83a00cc00ffd35f43e6736102a64996074a01ea92abe12767e5fa4f''\<rparr>], used = []\<rparr>, addresses_file = Some \<lparr>available = [\<lparr>address = ''0x54b99Dc1C2f505CF0fAA465eCdA78c872b3749cC'',
      private_key = ''0xd09777239f86e807e5fbd5db02fe4cff51dcbc77b598dfcea6c62aea4117acd8''\<rparr>, \<lparr>address = ''0xF86C6fD8d11Bd7a5C4F19301BA6ab4Da0B69B206'',
      private_key = ''0xf30129e3a83a00cc00ffd35f43e6736102a64996074a01ea92abe12767e5fa4f''\<rparr>], used = []\<rparr>\<rparr>, blockchain_account = None,
      key_store = \<lparr>key_files = [], storage_writable = True\<rparr>\<rparr> ''individual'' ''Alice'' \<lparr>entity_uuid = ''u1'', wallet_uuid = ''u2'', entity_keys = (''private 1'', ''public 1''),
      wallet_keys = (''private 2'', ''public 2''), entity_created = ''2024-01-01T00:00:00'',
      wallet_created = ''2024-01-01T00:00:01''\<rparr>) = None
   \<and> ''0x54b99Dc1C2f505CF0fAA465eCdA78c872b3749cC'' \<notin> address ` set (available (pool (address_manager
        (fst (snd (create_did \<lparr>users = [], didDocuments = [], credentials = [], interactions = [],
      eth_balance = [], users_raising = [], reads_raising = [], failing_txs = [StoreDIDDocument ''did:ssi:entity:u1'']\<rparr> \<lparr>address_manager = \<lparr>pool = \<lparr>available = [\<lparr>address = ''0x54b99Dc1C2f505CF0fAA465eCdA78c872b3749cC'',
      private_key = ''0xd09777239f86e807e5fbd5db02fe4cff51dcbc77b598dfcea6c62aea4117acd8''\<rparr>, \<lparr>address = ''0xF86C6fD8d11Bd7a5C4F19301BA6ab4Da0B69B206'',
      private_key = ''0xf30129e3a83a00cc00ffd35f43e6736102a64996074a01ea92abe12767e5fa4f''\<rparr>], used = []\<rparr>, addresses_file = Some \<lparr>available = [\<lparr>address = ''0x54b99Dc1C2f505CF0fAA465eCdA78c872b3749cC'',
      private_key = ''0xd09777239f86e807e5fbd5db02fe4cff51dcbc77b598dfcea6c62aea4117acd8''\<rparr>, \<lparr>address = ''0xF86C6fD8d11Bd7a5C4F19301BA6ab4Da0B69B206'',
      private_key = ''0xf30129e3a83a00cc00ffd35f43e6736102a64996074a01ea92abe12767e5fa4f''\<rparr>], used = []\<rparr>\<rparr>, blockchain_account = None,
      key_store = \<lparr>key_files = [], storage_writable = True\<rparr>\<rparr> ''individual'' ''Alice'' \<lparr>entity_uuid = ''u1'', wallet_uuid = ''u2'', entity_keys = (''private 1'', ''public 1''),
      wallet_keys = (''private 2'', ''public 2''), entity_created = ''2024-01-01T00:00:00'',
      wallet_created = ''2024-01-01T00:00:01''\<rparr>))))))"
  by (simp add: create_did_def get_address_def assign_address_def save_addresses_def Let_def
      register_user_def user_type_key_def upper_def upper_char_def UserType_def registered_def
      create_did_documents_def store_keys_def store_did_document_def release_address_def
      is_address_registered_def)

text \<open>
  The exception handler of \<open>create_did\<close> releases the address only
  \<open>if 'user_id' in locals()\<close>, a name the function never binds. So when the user has been
  registered and storing the keys raises, \<open>create_did\<close> returns \<open>None\<close> and releases
  nothing: the address manager is as the acquisition left it, with the new entity DID still
  bound to its address.
\<close>

theorem create_did_exception_path:
  assumes acq: "get_address l (''did:ssi:entity:'' @ entity_uuid f) (address_manager svc)
      = (Some (a, k), am)"
    and reg: "fst (fst (register_user l a name user_type
          (''did:ssi:entity:'' @ entity_uuid f) (''did:ssi:wallet:'' @ wallet_uuid f)))"
    and nw: "\<not> storage_writable (key_store svc)"
  shows "\<exists>svc' l'. create_did l svc user_type name f = (None, svc', l')
    \<and> address_manager svc' = am
    \<and> (\<exists>d. map_of (used (pool (address_manager svc'))) (''did:ssi:entity:'' @ entity_uuid f)
          = Some d \<and> address d = a)"
proof -
  from get_address_binds [OF acq] obtain d where
    d: "map_of (used (pool am)) (''did:ssi:entity:'' @ entity_uuid f) = Some d" "address d = a"
    by blast
  obtain ok msg l1 where r: "register_user l a name user_type
      (''did:ssi:entity:'' @ entity_uuid f) (''did:ssi:wallet:'' @ wallet_uuid f) = ((ok, msg), l1)"
    by (metis surj_pair)
  with reg have ok by simp
  then show ?thesis
    using acq r nw d
    by (simp add: create_did_def Let_def create_did_documents_def store_keys_def
        create_did_except_def create_did_locals_def)
qed

theorem create_did_exception_path_witness:
  "fst (create_did \<lparr>users = [], didDocuments = [], credentials = [], interactions = [],
      eth_balance = [], users_raising = [], reads_raising = [], failing_txs = []\<rparr> \<lparr>address_manager = \<lparr>pool = \<lparr>available = [\<lparr>address = ''0x54b99Dc1C2f505CF0fAA465eCdA78c872b3749cC'',
      private_key = ''0xd09777239f86e807e5fbd5db02fe4cff51dcbc77b598dfcea6c62aea4117acd8''\<rparr>, \<lparr>address = ''0xF86C6fD8d11Bd7a5C4F19301BA6ab4Da0B69B206'',
      private_key = ''0xf30129e3a83a00cc00ffd35f43e6736102a64996074a01ea92abe12767e5fa4f''\<rparr>], used = []\<rparr>, addresses_file = Some \<lparr>available = [\<lparr>address = ''0x54b99Dc1C2f505CF0fAA465eCdA78c872b3749cC'',
      private_key = ''0xd09777239f86e807e5fbd5db02fe4cff51dcbc77b598dfcea6c62aea4117acd8''\<rparr>, \<lparr>address = ''0xF86C6fD8d11Bd7a5C4F19301BA6ab4Da0B69B206'',
      private_key = ''0xf30129e3a83a00cc00ffd35f43e6736102a64996074a01ea92abe12767e5fa4f''\<rparr>], used = []\<rparr>\<rparr>, blockchain_account = None,
      key_store = \<lparr>key_files = [], storage_writable = False\<rparr>\<rparr> ''individual'' ''Alice'' \<lparr>entity_uuid = ''u1'', wallet_uuid = ''u2'', entity_keys = (''private 1'', ''public 1''),
      wallet_keys = (''private 2'', ''public 2''), entity_created = ''2024-01-01T00:00:00'',
      wallet_created = ''2024-01-01T00:00:01''\<rparr>) = None
   \<and> (\<exists>d. map_of (used (pool (address_manager
          (fst (snd (create_did \<lparr>users = [], didDocuments = [], credentials = [], interactions = [],
      eth_balance = [], users_raising = [], reads_raising = [], failing_txs = []\<rparr> \<lparr>address_manager = \<lparr>pool = \<lparr>available = [\<lparr>address = ''0x54b99Dc1C2f505CF0fAA465eCdA78c872b3749cC'',
      private_key = ''0xd09777239f86e807e5fbd5db02fe4cff51dcbc77b598dfcea6c62aea4117acd8''\<rparr>, \<lparr>address = ''0xF86C6fD8d11Bd7a5C4F19301BA6ab4Da0B69B206'',
      private_key = ''0xf30129e3a83a00cc00ffd35f43e6736102a64996074a01ea92abe12767e5fa4f''\<rparr>], used = []\<rparr>, addresses_file = Some \<lparr>available = [\<lparr>address = ''0x54b99Dc1C2f505CF0fAA465eCdA78c872b3749cC'',
      private_key = ''0xd09777239f86e807e5fbd5db02fe4cff51dcbc77b598dfcea6c62aea4117acd8''\<rparr>, \<lparr>address = ''0xF86C6fD8d11Bd7a5C4F19301BA6ab4Da0B69B206'',
      private_key = ''0xf30129e3a83a00cc00ffd35f43e6736102a64996074a01ea92abe12767e5fa4f''\<rparr>], used = []\<rparr>\<rparr>, blockchain_account = None,
      key_store = \<lparr>key_files = [], storage_writable = False\<rparr>\<rparr> ''individual'' ''Alice'' \<lparr>entity_uuid = ''u1'', wallet_uuid = ''u2'', entity_keys = (''private 1'', ''public 1''),
      wallet_keys = (''private 2'', ''public 2''), entity_created = ''2024-01-01T00:00:00'',
      wallet_created = ''2024-01-01T00:00:01''\<rparr>))))))
        ''did:ssi:entity:u1'' = Some d \<and> address d = ''0x54b99Dc1C2f505CF0fAA465eCdA78c872b3749cC'')"
proof -
  have acq: "get_address \<lparr>users = [], didDocuments = [], credentials = [], interactions = [],
      eth_balance = [], users_raising = [], reads_raising = [], failing_txs = []\<rparr> (''did:ssi:entity:'' @ entity_uuid \<lparr>entity_uuid = ''u1'', wallet_uuid = ''u2'', entity_keys = (''private 1'', ''public 1''),
      wallet_keys = (''private 2'', ''public 2''), entity_created = ''2024-01-01T00:00:00'',
      wallet_created = ''2024-01-01T00:00:01''\<rparr>) (address_manager \<lparr>address_manager = \<lparr>pool = \<lparr>available = [\<lparr>address = ''0x54b99Dc1C2f505CF0fAA465eCdA78c872b3749cC'',
      private_key = ''0xd09777239f86e807e5fbd5db02fe4cff51dcbc77b598dfcea6c62aea4117acd8''\<rparr>, \<lparr>address = ''0xF86C6fD8d11Bd7a5C4F19301BA6ab4Da0B69B206'',
      private_key = ''0xf30129e3a83a00cc00ffd35f43e6736102a64996074a01ea92abe12767e5fa4f''\<rparr>], used = []\<rparr>, addresses_file = Some \<lparr>available = [\<lparr>address = ''0x54b99Dc1C2f505CF0fAA465eCdA78c872b3749cC'',
      private_key = ''0xd09777239f86e807e5fbd5db02fe4cff51dcbc77b598dfcea6c62aea4117acd8''\<rparr>, \<lparr>address = ''0xF86C6fD8d11Bd7a5C4F19301BA6ab4Da0B69B206'',
      private_key = ''0xf30129e3a83a00cc00ffd35f43e6736102a64996074a01ea92abe12767e5fa4f''\<rparr>], used = []\<rparr>\<rparr>, blockchain_account = None,
      key_store = \<lparr>key_files = [], storage_writable = False\<rparr>\<rparr>)
      = (Some (''0x54b99Dc1C2f505CF0fAA465eCdA78c872b3749cC'', ''0xd09777239f86e807e5fbd5db02fe4cff51dcbc77b598dfcea6c62aea4117acd8''), snd (get_address \<lparr>users = [], didDocuments = [], credentials = [], interactions = [],
      eth_balance = [], users_raising = [], reads_raising = [], failing_txs = []\<rparr> (''did:ssi:entity:'' @ entity_uuid \<lparr>entity_uuid = ''u1'', wallet_uuid = ''u2'', entity_keys = (''private 1'', ''public 1''),
      wallet_keys = (''private 2'', ''public 2''), entity_created = ''2024-01-01T00:00:00'',
      wallet_created = ''2024-01-01T00:00:01''\<rparr>) (address_manager \<lparr>address_manager = \<lparr>pool = \<lparr>available = [\<lparr>address = ''0x54b99Dc1C2f505CF0fAA465eCdA78c872b3749cC'',
      private_key = ''0xd09777239f86e807e5fbd5db02fe4cff51dcbc77b598dfcea6c62aea4117acd8''\<rparr>, \<lparr>address = ''0xF86C6fD8d11Bd7a5C4F19301BA6ab4Da0B69B206'',
      private_key = ''0xf30129e3a83a00cc00ffd35f43e6736102a64996074a01ea92abe12767e5fa4f''\<rparr>], used = []\<rparr>, addresses_file = Some \<lparr>available = [\<lparr>address = ''0x54b99Dc1C2f505CF0fAA465eCdA78c872b3749cC'',
      private_key = ''0xd09777239f86e807e5fbd5db02fe4cff51dcbc77b598dfcea6c62aea4117acd8''\<rparr>, \<lparr>address = ''0xF86C6fD8d11Bd7a5C4F19301BA6ab4Da0B69B206'',
      private_key = ''0xf30129e3a83a00cc00ffd35f43e6736102a64996074a01ea92abe12767e5fa4f''\<rparr>], used = []\<rparr>\<rparr>, blockchain_account = None,
      key_store = \<lparr>key_files = [], storage_writable = False\<rparr>\<rparr>)))"
    by (simp add: get_address_def assign_address_def save_addresses_def)
  have reg: "fst (fst (register_user \<lparr>users = [], didDocuments = [], credentials = [], interactions = [],
      eth_balance = [], users_raising = [], reads_raising = [], failing_txs = []\<rparr> ''0x54b99Dc1C2f505CF0fAA465eCdA78c872b3749cC'' ''Alice'' ''individual''
          (''did:ssi:entity:'' @ entity_uuid \<lparr>entity_uuid = ''u1'', wallet_uuid = ''u2'', entity_keys = (''private 1'', ''public 1''),
      wallet_keys = (''private 2'', ''public 2''), entity_created = ''2024-01-01T00:00:00'',
      wallet_created = ''2024-01-01T00:00:01''\<rparr>) (''did:ssi:wallet:'' @ wallet_uuid \<lparr>entity_uuid = ''u1'', wallet_uuid = ''u2'', entity_keys = (''private 1'', ''public 1''),
      wallet_keys = (''private 2'', ''public 2''), entity_created = ''2024-01-01T00:00:00'',
      wallet_created = ''2024-01-01T00:00:01''\<rparr>)))"
    by (simp add: register_user_def user_type_key_def upper_def upper_char_def UserType_def
        registered_def)
  have nw: "\<not> storage_writable (key_store \<lparr>address_manager = \<lparr>pool = \<lparr>available = [\<lparr>address = ''0x54b99Dc1C2f505CF0fAA465eCdA78c872b3749cC'',
      private_key = ''0xd09777239f86e807e5fbd5db02fe4cff51dcbc77b598dfcea6c62aea4117acd8''\<rparr>, \<lparr>address = ''0xF86C6fD8d11Bd7a5C4F19301BA6ab4Da0B69B206'',
      private_key = ''0xf30129e3a83a00cc00ffd35f43e6736102a64996074a01ea92abe12767e5fa4f''\<rparr>], used = []\<rparr>, addresses_file = Some \<lparr>available = [\<lparr>address = ''0x54b99Dc1C2f505CF0fAA465eCdA78c872b3749cC'',
      private_key = ''0xd09777239f86e807e5fbd5db02fe4cff51dcbc77b598dfcea6c62aea4117acd8''\<rparr>, \<lparr>address = ''0xF86C6fD8d11Bd7a5C4F19301BA6ab4Da0B69B206'',
      private_key = ''0xf30129e3a83a00cc00ffd35f43e6736102a64996074a01ea92abe12767e5fa4f''\<rparr>], used = []\<rparr>\<rparr>, blockchain_account = None,
      key_store = \<lparr>key_files = [], storage_writable = False\<rparr>\<rparr>)"
    by simp
  from create_did_exception_path [OF acq reg nw]
  show ?thesis by auto
qed

section \<open>Properties of the ownership transfer\<close>

lemma owner_info_ofD:
  assumes "owner_info_of l car = Some owner_info"
  shows "\<exists>d rest. map_of (didDocuments l) car = Some (JObj d)
    \<and> map_of d ''info'' = Some (JArr (JObj owner_info # rest))"
  using assms
  by (auto simp: owner_info_of_def split: option.splits json.splits list.splits)

lemma transfer_ownership_info:
  assumes "map_of d ''info'' = Some (JArr (JObj owner_info # rest))"
    and "map_of owner_info ''previous_owners'' = None
      \<or> (\<exists>ps. map_of owner_info ''previous_owners'' = Some (JArr ps))"
  shows "transfer_ownership new (JObj d) =
    Some (JObj (AList.update ''info'' (JArr (JObj
      (AList.update ''owner_did'' (JStr new)
        (AList.update ''previous_owners''
          (JArr (previous_owners_of owner_info @ [owner_did_of owner_info])) owner_info)) # rest)) d))"
  using assms
  by (auto simp: transfer_ownership_def previous_owners_of_def owner_did_of_def Let_def)

lemma transfer_step:
  assumes "car \<noteq> []" "car \<notin> set (reads_raising l)"
    "StoreDIDDocument car \<notin> set (failing_txs l)"
    "owner_info_of l car = Some owner_info"
    "map_of owner_info ''previous_owners'' = None
      \<or> (\<exists>ps. map_of owner_info ''previous_owners'' = Some (JArr ps))"
  shows "\<exists>svc' l' owner_info'.
    update_did_document json_loads l svc new (Some car) JNull = (Some True, svc', l')
    \<and> reads_raising l' = reads_raising l \<and> failing_txs l' = failing_txs l
    \<and> owner_info_of l' car = Some owner_info'
    \<and> map_of owner_info' ''previous_owners''
        = Some (JArr (previous_owners_of owner_info @ [owner_did_of owner_info]))
    \<and> owner_did_of owner_info' = JStr new"
proof -
  from owner_info_ofD [OF assms(4)] obtain d rest where
    d: "map_of (didDocuments l) car = Some (JObj d)"
      "map_of d ''info'' = Some (JArr (JObj owner_info # rest))"
    by blast
  from d(2) have ne: "d \<noteq> []" by auto
  have g: "get_did_document l car = Some (JObj d)"
    using assms(2) d(1) by (simp add: get_did_document_def)
  note t = transfer_ownership_info [OF d(2) assms(5), of new]
  show ?thesis
    using assms(1,3) g ne t
    by (simp add: update_did_document_def update_vehicle_owner_def Let_def parse_if_str_def
        store_did_document_def owner_info_of_def AList.update_conv' owner_did_of_def)
qed

lemma transfer_all_history:
  assumes "car \<noteq> []" "car \<notin> set (reads_raising l)"
    "StoreDIDDocument car \<notin> set (failing_txs l)"
    "owner_info_of l car = Some owner_info"
    "map_of owner_info ''previous_owners'' = None
      \<or> (\<exists>ps. map_of owner_info ''previous_owners'' = Some (JArr ps))"
  shows "\<exists>svc' l' owner_info'.
    transfer_all json_loads car owners (svc, l) = (svc', l')
    \<and> owner_info_of l' car = Some owner_info'
    \<and> previous_owners_of owner_info' = previous_owners_of owner_info
        @ take (length owners) (owner_did_of owner_info # map JStr owners)
    \<and> owner_did_of owner_info' = last (owner_did_of owner_info # map JStr owners)"
  using assms
proof (induction owners arbitrary: svc l owner_info)
  case Nil
  then show ?case by (simp add: transfer_all_def)
next
  case (Cons new owners)
  from transfer_step [OF Cons.prems, of json_loads svc new] obtain svc1 l1 o1 where
    s: "update_did_document json_loads l svc new (Some car) JNull = (Some True, svc1, l1)"
      "reads_raising l1 = reads_raising l" "failing_txs l1 = failing_txs l"
      "owner_info_of l1 car = Some o1"
      "map_of o1 ''previous_owners''
        = Some (JArr (previous_owners_of owner_info @ [owner_did_of owner_info]))"
      "owner_did_of o1 = JStr new"
    by blast
  have p1: "previous_owners_of o1 = previous_owners_of owner_info @ [owner_did_of owner_info]"
    using s(5) by (simp add: previous_owners_of_def)
  from Cons.IH [of l1 o1 svc1] Cons.prems(1,2,3) s obtain svc' l' o' where
    r: "transfer_all json_loads car owners (svc1, l1) = (svc', l')"
      "owner_info_of l' car = Some o'"
      "previous_owners_of o' = previous_owners_of o1
        @ take (length owners) (owner_did_of o1 # map JStr owners)"
      "owner_did_of o' = last (owner_did_of o1 # map JStr owners)"
    by auto
  have "transfer_all json_loads car (new # owners) (svc, l) = (svc', l')"
    using s(1) r(1) by (simp add: transfer_all_def)
  then show ?case
    using r(2,3,4) p1 s(6) by simp
qed


text \<open>
  C7. Take a vehicle document on the ledger whose first \<open>info\<close> block has no
  \<open>previous_owners\<close> yet, a ledger that answers the reads of the document and mines the
  stores, and apply the ownership transfer for the new owners \<open>o1 .. oN\<close> in turn. Every
  transfer pushes the owner of that moment onto \<open>previous_owners\<close> and then overwrites
  \<open>owner_did\<close>: afterwards \<open>previous_owners\<close> has length \<open>N\<close> and lists, in the order of
  the transfers, the owner before each of them (the owner at the start, then
  \<open>o1 .. o(N-1)\<close>), and \<open>owner_did\<close> is \<open>oN\<close>.
\<close>

theorem ownership_transfer_history:
  assumes "car \<noteq> []" "car \<notin> set (reads_raising l)"
    "StoreDIDDocument car \<notin> set (failing_txs l)"
    "owner_info_of l car = Some owner_info"
    "map_of owner_info ''previous_owners'' = None"
  shows "\<exists>svc' l' owner_info'.
    transfer_all json_loads car owners (svc, l) = (svc', l')
    \<and> owner_info_of l' car = Some owner_info'
    \<and> length (previous_owners_of owner_info') = length owners
    \<and> previous_owners_of owner_info'
        = take (length owners) (owner_did_of owner_info # map JStr owners)
    \<and> (owners \<noteq> [] \<longrightarrow> owner_did_of owner_info' = JStr (last owners))"
proof -
  have e: "previous_owners_of owner_info = []"
    using assms(5) by (simp add: previous_owners_of_def)
  from transfer_all_history [OF assms(1-4), of json_loads owners svc] assms(5)
  obtain svc' l' o' where
    r: "transfer_all json_loads car owners (svc, l) = (svc', l')"
      "owner_info_of l' car = Some o'"
      "previous_owners_of o' = previous_owners_of owner_info
        @ take (length owners) (owner_did_of owner_info # map JStr owners)"
      "owner_did_of o' = last (owner_did_of owner_info # map JStr owners)"
    by blast
  have "owners \<noteq> [] \<longrightarrow> owner_did_of o' = JStr (last owners)"
    using r(4) by (simp add: last_map)
  then show ?thesis
    using r e by simp
qed

theorem ownership_transfer_history_witness:
  "\<exists>svc' l' owner_info'.
    transfer_all (map_of []) ''did:ssi:entity:car''
      [''did:ssi:entity:alice'', ''did:ssi:entity:bob''] (\<lparr>address_manager = \<lparr>pool = \<lparr>available = [\<lparr>address = ''0x54b99Dc1C2f505CF0fAA465eCdA78c872b3749cC'',
      private_key = ''0xd09777239f86e807e5fbd5db02fe4cff51dcbc77b598dfcea6c62aea4117acd8''\<rparr>, \<lparr>address = ''0xF86C6fD8d11Bd7a5C4F19301BA6ab4Da0B69B206'',
      private_key = ''0xf30129e3a83a00cc00ffd35f43e6736102a64996074a01ea92abe12767e5fa4f''\<rparr>], used = []\<rparr>, addresses_file = Some \<lparr>available = [\<lparr>address = ''0x54b99Dc1C2f505CF0fAA465eCdA78c872b3749cC'',
      private_key = ''0xd09777239f86e807e5fbd5db02fe4cff51dcbc77b598dfcea6c62aea4117acd8''\<rparr>, \<lparr>address = ''0xF86C6fD8d11Bd7a5C4F19301BA6ab4Da0B69B206'',
      private_key = ''0xf30129e3a83a00cc00ffd35f43e6736102a64996074a01ea92abe12767e5fa4f''\<rparr>], used = []\<rparr>\<rparr>, blockchain_account = None,
      key_store = \<lparr>key_files = [], storage_writable = True\<rparr>\<rparr>, \<lparr>users = [], didDocuments = [(''did:ssi:entity:car'', JObj [(''id'', JStr ''did:ssi:entity:car''),
        (''info'', JArr [JObj [(''id'', JStr ''did:ssi:entity:car#vehicle_VIN1''),
            (''manufacturer'', JStr ''Maker''), (''owner_did'', JStr ''did:ssi:entity:maker''),
            (''vin'', JStr ''VIN1'')],
          JObj [(''id'', JStr ''did:ssi:wallet:car#wallet''), (''type'', JStr ''WalletLink'')]])])], credentials = [], interactions = [],
      eth_balance = [], users_raising = [], reads_raising = [], failing_txs = []\<rparr>) = (svc', l')
    \<and> owner_info_of l' ''did:ssi:entity:car'' = Some owner_info'
    \<and> previous_owners_of owner_info' = [JStr ''did:ssi:entity:maker'', JStr ''did:ssi:entity:alice'']
    \<and> owner_did_of owner_info' = JStr ''did:ssi:entity:bob''"
proof -
  have h: "''did:ssi:entity:car'' \<noteq> []"
    "''did:ssi:entity:car'' \<notin> set (reads_raising \<lparr>users = [], didDocuments = [(''did:ssi:entity:car'', JObj [(''id'', JStr ''did:ssi:entity:car''),
        (''info'', JArr [JObj [(''id'', JStr ''did:ssi:entity:car#vehicle_VIN1''),
            (''manufacturer'', JStr ''Maker''), (''owner_did'', JStr ''did:ssi:entity:maker''),
            (''vin'', JStr ''VIN1'')],
          JObj [(''id'', JStr ''did:ssi:wallet:car#wallet''), (''type'', JStr ''WalletLink'')]])])], credentials = [], interactions = [],
      eth_balance = [], users_raising = [], reads_raising = [], failing_txs = []\<rparr>)"
    "StoreDIDDocument ''did:ssi:entity:car'' \<notin> set (failing_txs \<lparr>users = [], didDocuments = [(''did:ssi:entity:car'', JObj [(''id'', JStr ''did:ssi:entity:car''),
        (''info'', JArr [JObj [(''id'', JStr ''did:ssi:entity:car#vehicle_VIN1''),
            (''manufacturer'', JStr ''Maker''), (''owner_did'', JStr ''did:ssi:entity:maker''),
            (''vin'', JStr ''VIN1'')],
          JObj [(''id'', JStr ''did:ssi:wallet:car#wallet''), (''type'', JStr ''WalletLink'')]])])], credentials = [], interactions = [],
      eth_balance = [], users_raising = [], reads_raising = [], failing_txs = []\<rparr>)"
    "owner_info_of \<lparr>users = [], didDocuments = [(''did:ssi:entity:car'', JObj [(''id'', JStr ''did:ssi:entity:car''),
        (''info'', JArr [JObj [(''id'', JStr ''did:ssi:entity:car#vehicle_VIN1''),
            (''manufacturer'', JStr ''Maker''), (''owner_did'', JStr ''did:ssi:entity:maker''),
            (''vin'', JStr ''VIN1'')],
          JObj [(''id'', JStr ''did:ssi:wallet:car#wallet''), (''type'', JStr ''WalletLink'')]])])], credentials = [], interactions = [],
      eth_balance = [], users_raising = [], reads_raising = [], failing_txs = []\<rparr> ''did:ssi:entity:car'' = Some [(''id'', JStr ''did:ssi:entity:car#vehicle_VIN1''),
            (''manufacturer'', JStr ''Maker''), (''owner_did'', JStr ''did:ssi:entity:maker''),
            (''vin'', JStr ''VIN1'')]"
    "map_of [(''id'', JStr ''did:ssi:entity:car#vehicle_VIN1''),
            (''manufacturer'', JStr ''Maker''), (''owner_did'', JStr ''did:ssi:entity:maker''),
            (''vin'', JStr ''VIN1'')] ''previous_owners'' = None"
    by (simp_all add: owner_info_of_def)
  from ownership_transfer_history [OF h, of "map_of []"
      "[''did:ssi:entity:alice'', ''did:ssi:entity:bob'']" "\<lparr>address_manager = \<lparr>pool = \<lparr>available = [\<lparr>address = ''0x54b99Dc1C2f505CF0fAA465eCdA78c872b3749cC'',
      private_key = ''0xd09777239f86e807e5fbd5db02fe4cff51dcbc77b598dfcea6c62aea4117acd8''\<rparr>, \<lparr>address = ''0xF86C6fD8d11Bd7a5C4F19301BA6ab4Da0B69B206'',
      private_key = ''0xf30129e3a83a00cc00ffd35f43e6736102a64996074a01ea92abe12767e5fa4f''\<rparr>], used = []\<rparr>, addresses_file = Some \<lparr>available = [\<lparr>address = ''0x54b99Dc1C2f505CF0fAA465eCdA78c872b3749cC'',
      private_key = ''0xd09777239f86e807e5fbd5db02fe4cff51dcbc77b598dfcea6c62aea4117acd8''\<rparr>, \<lparr>address = ''0xF86C6fD8d11Bd7a5C4F19301BA6ab4Da0B69B206'',
      private_key = ''0xf30129e3a83a00cc00ffd35f43e6736102a64996074a01ea92abe12767e5fa4f''\<rparr>], used = []\<rparr>\<rparr>, blockchain_account = None,
      key_store = \<lparr>key_files = [], storage_writable = True\<rparr>\<rparr>"]
  obtain svc' l' o' where
    r: "transfer_all (map_of []) ''did:ssi:entity:car''
        [''did:ssi:entity:alice'', ''did:ssi:entity:bob''] (\<lparr>address_manager = \<lparr>pool = \<lparr>available = [\<lparr>address = ''0x54b99Dc1C2f505CF0fAA465eCdA78c872b3749cC'',
      private_key = ''0xd09777239f86e807e5fbd5db02fe4cff51dcbc77b598dfcea6c62aea4117acd8''\<rparr>, \<lparr>address = ''0xF86C6fD8d11Bd7a5C4F19301BA6ab4Da0B69B206'',
      private_key = ''0xf30129e3a83a00cc00ffd35f43e6736102a64996074a01ea92abe12767e5fa4f''\<rparr>], used = []\<rparr>, addresses_file = Some \<lparr>available = [\<lparr>address = ''0x54b99Dc1C2f505CF0fAA465eCdA78c872b3749cC'',
      private_key = ''0xd09777239f86e807e5fbd5db02fe4cff51dcbc77b598dfcea6c62aea4117acd8''\<rparr>, \<lparr>address = ''0xF86C6fD8d11Bd7a5C4F19301BA6ab4Da0B69B206'',
      private_key = ''0xf30129e3a83a00cc00ffd35f43e6736102a64996074a01ea92abe12767e5fa4f''\<rparr>], used = []\<rparr>\<rparr>, blockchain_account = None,
      key_store = \<lparr>key_files = [], storage_writable = True\<rparr>\<rparr>, \<lparr>users = [], didDocuments = [(''did:ssi:entity:car'', JObj [(''id'', JStr ''did:ssi:entity:car''),
        (''info'', JArr [JObj [(''id'', JStr ''did:ssi:entity:car#vehicle_VIN1''),
            (''manufacturer'', JStr ''Maker''), (''owner_did'', JStr ''did:ssi:entity:maker''),
            (''vin'', JStr ''VIN1'')],
          JObj [(''id'', JStr ''did:ssi:wallet:car#wallet''), (''type'', JStr ''WalletLink'')]])])], credentials = [], interactions = [],
      eth_balance = [], users_raising = [], reads_raising = [], failing_txs = []\<rparr>) = (svc', l')"
      "owner_info_of l' ''did:ssi:entity:car'' = Some o'"
      "previous_owners_of o' = take (length [''did:ssi:entity:alice'', ''did:ssi:entity:bob''])
        (owner_did_of [(''id'', JStr ''did:ssi:entity:car#vehicle_VIN1''),
            (''manufacturer'', JStr ''Maker''), (''owner_did'', JStr ''did:ssi:entity:maker''),
            (''vin'', JStr ''VIN1'')] # map JStr [''did:ssi:entity:alice'', ''did:ssi:entity:bob''])"
      "[''did:ssi:entity:alice'', ''did:ssi:entity:bob''] \<noteq> [] \<longrightarrow>
        owner_did_of o' = JStr (last [''did:ssi:entity:alice'', ''did:ssi:entity:bob''])"
    by blast
  have p: "previous_owners_of o' = [JStr ''did:ssi:entity:maker'', JStr ''did:ssi:entity:alice'']"
    using r(3) by (simp add: owner_did_of_def)
  have o: "owner_did_of o' = JStr ''did:ssi:entity:bob''"
    using r(4) by simp
  from r(1,2) p o show ?thesis by blast
qed

section \<open>Properties of respond\_to\_request\<close>










lemma strip_None: "strip ''None'' = ''None''"
  by (simp add: strip_def is_space_def)






section \<open>Properties of the inbox handling\<close>





section \<open>Properties of issuing and verifying a credential\<close>

lemma create_credential_SomeD:
  assumes "create_credential l svc issuer_did subject_did claims iss = (Some c, svc', l')"
  shows "\<exists>signature. signature_value iss = Some signature
    \<and> c = JObj (credential_body (''did:ssi:credential:'' @ credential_uuid iss) issuer_did
          subject_did claims (issuance_date iss)
        @ [(''proof'', JObj [(''type'', JStr ''RsaSignature2018''),
             (''created'', JStr (proof_created iss)),
             (''verificationMethod'', JStr (issuer_did @ ''#keys-1'')),
             (''signatureValue'', JStr signature)])])
    \<and> map_of (didDocuments l') (''did:ssi:credential:'' @ credential_uuid iss) = Some c"
  using assms
  by (auto simp: create_credential_def Let_def store_did_document_def credential_body_def
      AList.update_conv' split: prod.splits option.splits sum.splits if_splits)

text \<open>
  C1, amended. A credential issued by \<open>create_credential\<close> is the signed body (context,
  id, type, issuer, issuance date and subject with the claims) followed by its \<open>proof\<close>,
  and it is stored under its id with \<open>store_did_document\<close>. \<open>verify_credential\<close> returns
  whatever credential the ledger's \<open>getCredential\<close> holds under the id, as it is stored:
  it reads neither the proof nor the signed fields and recomputes no digest, so it returns
  a stored credential whose claims were changed after issuance just as it returns an intact
  one.
\<close>

theorem verify_credential_returns_stored:
  assumes "create_credential l svc issuer_did subject_did claims iss = (Some c, svc', l')"
    and "credential_id = ''did:ssi:credential:'' @ credential_uuid iss"
    and "credential_id \<notin> set (reads_raising l2)"
    and "map_of (credentials l2) credential_id = Some stored"
  shows "(\<exists>proof. c = JObj (credential_body credential_id issuer_did subject_did claims
              (issuance_date iss) @ [(''proof'', proof)]))
    \<and> map_of (didDocuments l') credential_id = Some c
    \<and> verify_credential l2 credential_id = Some stored"
  using create_credential_SomeD [OF assms(1)] assms(2,3,4)
  by (auto simp: verify_credential_def get_credential_def)


text \<open>
  An issued credential, evaluated.
\<close>

lemma create_credential_example:
  "fst (create_credential \<lparr>users = [], didDocuments = [], credentials = [], interactions = [],
      eth_balance = [], users_raising = [], reads_raising = [], failing_txs = []\<rparr> \<lparr>address_manager = \<lparr>pool = \<lparr>available = [\<lparr>address = ''0x54b99Dc1C2f505CF0fAA465eCdA78c872b3749cC'',
      private_key = ''0xd09777239f86e807e5fbd5db02fe4cff51dcbc77b598dfcea6c62aea4117acd8''\<rparr>, \<lparr>address = ''0xF86C6fD8d11Bd7a5C4F19301BA6ab4Da0B69B206'',
      private_key = ''0xf30129e3a83a00cc00ffd35f43e6736102a64996074a01ea92abe12767e5fa4f''\<rparr>], used = []\<rparr>, addresses_file = Some \<lparr>available = [\<lparr>address = ''0x54b99Dc1C2f505CF0fAA465eCdA78c872b3749cC'',
      private_key = ''0xd09777239f86e807e5fbd5db02fe4cff51dcbc77b598dfcea6c62aea4117acd8''\<rparr>, \<lparr>address = ''0xF86C6fD8d11Bd7a5C4F19301BA6ab4Da0B69B206'',
      private_key = ''0xf30129e3a83a00cc00ffd35f43e6736102a64996074a01ea92abe12767e5fa4f''\<rparr>], used = []\<rparr>\<rparr>, blockchain_account = None,
      key_store = \<lparr>key_files = [(''did_ssi_entity_issuer'', (''private pem'', ''public pem''))], storage_writable = True\<rparr>\<rparr> ''did:ssi:entity:issuer'' ''did:ssi:entity:alice''
      [(''type'', JStr ''VehicleOwnership''), (''vehicleVIN'', JStr ''VIN1'')] \<lparr>credential_uuid = ''c1'', issuance_date = ''2024-01-01T00:00:00'',
      proof_created = ''2024-01-01T00:00:01'',
      signature_value = Some ''c2lnbmF0dXJlIG9mIFZJTjE=''\<rparr>) = Some (JObj [(''@context'', JArr [JStr ''https://www.w3.org/2018/credentials/v1'',
          JStr ''https://www.w3.org/2018/credentials/examples/v1'']),
        (''id'', JStr ''did:ssi:credential:c1''),
        (''type'', JArr [JStr ''VerifiableCredential'', JStr ''VehicleOwnership'']),
        (''issuer'', JStr ''did:ssi:entity:issuer''),
        (''issuanceDate'', JStr ''2024-01-01T00:00:00''),
        (''credentialSubject'', JObj [(''id'', JStr ''did:ssi:entity:alice''),
          (''type'', JStr ''VehicleOwnership''), (''vehicleVIN'', JStr ''VIN1'')]),
        (''proof'', JObj [(''type'', JStr ''RsaSignature2018''),
          (''created'', JStr ''2024-01-01T00:00:01''),
          (''verificationMethod'', JStr ''did:ssi:entity:issuer#keys-1''),
          (''signatureValue'', JStr ''c2lnbmF0dXJlIG9mIFZJTjE='')])])"
  by (simp add: create_credential_def get_address_def assign_address_def save_addresses_def
      get_keys_def did_folder_def credential_body_def dict_merge_def store_did_document_def
      Let_def)

theorem verify_credential_returns_stored_witness:
  "verify_credential \<lparr>users = [], didDocuments = [(''did:ssi:credential:c1'', JObj [(''@context'', JArr [JStr ''https://www.w3.org/2018/credentials/v1'',
          JStr ''https://www.w3.org/2018/credentials/examples/v1'']),
        (''id'', JStr ''did:ssi:credential:c1''),
        (''type'', JArr [JStr ''VerifiableCredential'', JStr ''VehicleOwnership'']),
        (''issuer'', JStr ''did:ssi:entity:issuer''),
        (''issuanceDate'', JStr ''2024-01-01T00:00:00''),
        (''credentialSubject'', JObj [(''id'', JStr ''did:ssi:entity:alice''),
          (''type'', JStr ''VehicleOwnership''), (''vehicleVIN'', JStr ''VIN1'')]),
        (''proof'', JObj [(''type'', JStr ''RsaSignature2018''),
          (''created'', JStr ''2024-01-01T00:00:01''),
          (''verificationMethod'', JStr ''did:ssi:entity:issuer#keys-1''),
          (''signatureValue'', JStr ''c2lnbmF0dXJlIG9mIFZJTjE='')])])], credentials = [(''did:ssi:credential:c1'', JObj [(''@context'', JArr [JStr ''https://www.w3.org/2018/credentials/v1'',
          JStr ''https://www.w3.org/2018/credentials/examples/v1'']),
        (''id'', JStr ''did:ssi:credential:c1''),
        (''type'', JArr [JStr ''VerifiableCredential'', JStr ''VehicleOwnership'']),
        (''issuer'', JStr ''did:ssi:entity:issuer''),
        (''issuanceDate'', JStr ''2024-01-01T00:00:00''),
        (''credentialSubject'', JObj [(''id'', JStr ''did:ssi:entity:alice''),
          (''type'', JStr ''VehicleOwnership''), (''vehicleVIN'', JStr ''VIN1'')]),
        (''proof'', JObj [(''type'', JStr ''RsaSignature2018''),
          (''created'', JStr ''2024-01-01T00:00:01''),
          (''verificationMethod'', JStr ''did:ssi:entity:issuer#keys-1''),
          (''signatureValue'', JStr ''c2lnbmF0dXJlIG9mIFZJTjE='')])])], interactions = [],
      eth_balance = [], users_raising = [], reads_raising = [], failing_txs = []\<rparr> ''did:ssi:credential:c1'' = Some (JObj [(''@context'', JArr [JStr ''https://www.w3.org/2018/credentials/v1'',
          JStr ''https://www.w3.org/2018/credentials/examples/v1'']),
        (''id'', JStr ''did:ssi:credential:c1''),
        (''type'', JArr [JStr ''VerifiableCredential'', JStr ''VehicleOwnership'']),
        (''issuer'', JStr ''did:ssi:entity:issuer''),
        (''issuanceDate'', JStr ''2024-01-01T00:00:00''),
        (''credentialSubject'', JObj [(''id'', JStr ''did:ssi:entity:alice''),
          (''type'', JStr ''VehicleOwnership''), (''vehicleVIN'', JStr ''VIN1'')]),
        (''proof'', JObj [(''type'', JStr ''RsaSignature2018''),
          (''created'', JStr ''2024-01-01T00:00:01''),
          (''verificationMethod'', JStr ''did:ssi:entity:issuer#keys-1''),
          (''signatureValue'', JStr ''c2lnbmF0dXJlIG9mIFZJTjE='')])])"
proof -
  let ?r = "create_credential \<lparr>users = [], didDocuments = [], credentials = [], interactions = [],
      eth_balance = [], users_raising = [], reads_raising = [], failing_txs = []\<rparr> \<lparr>address_manager = \<lparr>pool = \<lparr>available = [\<lparr>address = ''0x54b99Dc1C2f505CF0fAA465eCdA78c872b3749cC'',
      private_key = ''0xd09777239f86e807e5fbd5db02fe4cff51dcbc77b598dfcea6c62aea4117acd8''\<rparr>, \<lparr>address = ''0xF86C6fD8d11Bd7a5C4F19301BA6ab4Da0B69B206'',
      private_key = ''0xf30129e3a83a00cc00ffd35f43e6736102a64996074a01ea92abe12767e5fa4f''\<rparr>], used = []\<rparr>, addresses_file = Some \<lparr>available = [\<lparr>address = ''0x54b99Dc1C2f505CF0fAA465eCdA78c872b3749cC'',
      private_key = ''0xd09777239f86e807e5fbd5db02fe4cff51dcbc77b598dfcea6c62aea4117acd8''\<rparr>, \<lparr>address = ''0xF86C6fD8d11Bd7a5C4F19301BA6ab4Da0B69B206'',
      private_key = ''0xf30129e3a83a00cc00ffd35f43e6736102a64996074a01ea92abe12767e5fa4f''\<rparr>], used = []\<rparr>\<rparr>, blockchain_account = None,
      key_store = \<lparr>key_files = [(''did_ssi_entity_issuer'', (''private pem'', ''public pem''))], storage_writable = True\<rparr>\<rparr> ''did:ssi:entity:issuer'' ''did:ssi:entity:alice''
      [(''type'', JStr ''VehicleOwnership''), (''vehicleVIN'', JStr ''VIN1'')] \<lparr>credential_uuid = ''c1'', issuance_date = ''2024-01-01T00:00:00'',
      proof_created = ''2024-01-01T00:00:01'',
      signature_value = Some ''c2lnbmF0dXJlIG9mIFZJTjE=''\<rparr>"
  have h1: "?r = (Some (JObj [(''@context'', JArr [JStr ''https://www.w3.org/2018/credentials/v1'',
          JStr ''https://www.w3.org/2018/credentials/examples/v1'']),
        (''id'', JStr ''did:ssi:credential:c1''),
        (''type'', JArr [JStr ''VerifiableCredential'', JStr ''VehicleOwnership'']),
        (''issuer'', JStr ''did:ssi:entity:issuer''),
        (''issuanceDate'', JStr ''2024-01-01T00:00:00''),
        (''credentialSubject'', JObj [(''id'', JStr ''did:ssi:entity:alice''),
          (''type'', JStr ''VehicleOwnership''), (''vehicleVIN'', JStr ''VIN1'')]),
        (''proof'', JObj [(''type'', JStr ''RsaSignature2018''),
          (''created'', JStr ''2024-01-01T00:00:01''),
          (''verificationMethod'', JStr ''did:ssi:entity:issuer#keys-1''),
          (''signatureValue'', JStr ''c2lnbmF0dXJlIG9mIFZJTjE='')])]), fst (snd ?r), snd (snd ?r))"
    using create_credential_example by (simp add: prod_eq_iff)
  have h2: "''did:ssi:credential:c1'' = ''did:ssi:credential:'' @ credential_uuid \<lparr>credential_uuid = ''c1'', issuance_date = ''2024-01-01T00:00:00'',
      proof_created = ''2024-01-01T00:00:01'',
      signature_value = Some ''c2lnbmF0dXJlIG9mIFZJTjE=''\<rparr>"
    by simp
  have h3: "''did:ssi:credential:c1'' \<notin> set (reads_raising \<lparr>users = [], didDocuments = [(''did:ssi:credential:c1'', JObj [(''@context'', JArr [JStr ''https://www.w3.org/2018/credentials/v1'',
          JStr ''https://www.w3.org/2018/credentials/examples/v1'']),
        (''id'', JStr ''did:ssi:credential:c1''),
        (''type'', JArr [JStr ''VerifiableCredential'', JStr ''VehicleOwnership'']),
        (''issuer'', JStr ''did:ssi:entity:issuer''),
        (''issuanceDate'', JStr ''2024-01-01T00:00:00''),
        (''credentialSubject'', JObj [(''id'', JStr ''did:ssi:entity:alice''),
          (''type'', JStr ''VehicleOwnership''), (''vehicleVIN'', JStr ''VIN1'')]),
        (''proof'', JObj [(''type'', JStr ''RsaSignature2018''),
          (''created'', JStr ''2024-01-01T00:00:01''),
          (''verificationMethod'', JStr ''did:ssi:entity:issuer#keys-1''),
          (''signatureValue'', JStr ''c2lnbmF0dXJlIG9mIFZJTjE='')])])], credentials = [(''did:ssi:credential:c1'', JObj [(''@context'', JArr [JStr ''https://www.w3.org/2018/credentials/v1'',
          JStr ''https://www.w3.org/2018/credentials/examples/v1'']),
        (''id'', JStr ''did:ssi:credential:c1''),
        (''type'', JArr [JStr ''VerifiableCredential'', JStr ''VehicleOwnership'']),
        (''issuer'', JStr ''did:ssi:entity:issuer''),
        (''issuanceDate'', JStr ''2024-01-01T00:00:00''),
        (''credentialSubject'', JObj [(''id'', JStr ''did:ssi:entity:alice''),
          (''type'', JStr ''VehicleOwnership''), (''vehicleVIN'', JStr ''VIN1'')]),
        (''proof'', JObj [(''type'', JStr ''RsaSignature2018''),
          (''created'', JStr ''2024-01-01T00:00:01''),
          (''verificationMethod'', JStr ''did:ssi:entity:issuer#keys-1''),
          (''signatureValue'', JStr ''c2lnbmF0dXJlIG9mIFZJTjE='')])])], interactions = [],
      eth_balance = [], users_raising = [], reads_raising = [], failing_txs = []\<rparr>)"
    by simp
  have h4: "map_of (credentials \<lparr>users = [], didDocuments = [(''did:ssi:credential:c1'', JObj [(''@context'', JArr [JStr ''https://www.w3.org/2018/credentials/v1'',
          JStr ''https://www.w3.org/2018/credentials/examples/v1'']),
        (''id'', JStr ''did:ssi:credential:c1''),
        (''type'', JArr [JStr ''VerifiableCredential'', JStr ''VehicleOwnership'']),
        (''issuer'', JStr ''did:ssi:entity:issuer''),
        (''issuanceDate'', JStr ''2024-01-01T00:00:00''),
        (''credentialSubject'', JObj [(''id'', JStr ''did:ssi:entity:alice''),
          (''type'', JStr ''VehicleOwnership''), (''vehicleVIN'', JStr ''VIN1'')]),
        (''proof'', JObj [(''type'', JStr ''RsaSignature2018''),
          (''created'', JStr ''2024-01-01T00:00:01''),
          (''verificationMethod'', JStr ''did:ssi:entity:issuer#keys-1''),
          (''signatureValue'', JStr ''c2lnbmF0dXJlIG9mIFZJTjE='')])])], credentials = [(''did:ssi:credential:c1'', JObj [(''@context'', JArr [JStr ''https://www.w3.org/2018/credentials/v1'',
          JStr ''https://www.w3.org/2018/credentials/examples/v1'']),
        (''id'', JStr ''did:ssi:credential:c1''),
        (''type'', JArr [JStr ''VerifiableCredential'', JStr ''VehicleOwnership'']),
        (''issuer'', JStr ''did:ssi:entity:issuer''),
        (''issuanceDate'', JStr ''2024-01-01T00:00:00''),
        (''credentialSubject'', JObj [(''id'', JStr ''did:ssi:entity:alice''),
          (''type'', JStr ''VehicleOwnership''), (''vehicleVIN'', JStr ''VIN1'')]),
        (''proof'', JObj [(''type'', JStr ''RsaSignature2018''),
          (''created'', JStr ''2024-01-01T00:00:01''),
          (''verificationMethod'', JStr ''did:ssi:entity:issuer#keys-1''),
          (''signatureValue'', JStr ''c2lnbmF0dXJlIG9mIFZJTjE='')])])], interactions = [],
      eth_balance = [], users_raising = [], reads_raising = [], failing_txs = []\<rparr>) ''did:ssi:credential:c1'' = Some (JObj [(''@context'', JArr [JStr ''https://www.w3.org/2018/credentials/v1'',
          JStr ''https://www.w3.org/2018/credentials/examples/v1'']),
        (''id'', JStr ''did:ssi:credential:c1''),
        (''type'', JArr [JStr ''VerifiableCredential'', JStr ''VehicleOwnership'']),
        (''issuer'', JStr ''did:ssi:entity:issuer''),
        (''issuanceDate'', JStr ''2024-01-01T00:00:00''),
        (''credentialSubject'', JObj [(''id'', JStr ''did:ssi:entity:alice''),
          (''type'', JStr ''VehicleOwnership''), (''vehicleVIN'', JStr ''VIN1'')]),
        (''proof'', JObj [(''type'', JStr ''RsaSignature2018''),
          (''created'', JStr ''2024-01-01T00:00:01''),
          (''verificationMethod'', JStr ''did:ssi:entity:issuer#keys-1''),
          (''signatureValue'', JStr ''c2lnbmF0dXJlIG9mIFZJTjE='')])])"
    by simp
  from verify_credential_returns_stored [OF h1 h2 h3 h4]
  show ?thesis by blast
qed

text \<open>
  C1 as stated fails: a credential is issued, a claim of the stored credential is changed
  (the VIN) while the proof stays, and \<open>verify_credential\<close> still returns the credential, a
  true value, instead of failing.
\<close>

theorem verify_mutated_credential_counterexample:
  "fst (create_credential \<lparr>users = [], didDocuments = [], credentials = [], interactions = [],
      eth_balance = [], users_raising = [], reads_raising = [], failing_txs = []\<rparr> \<lparr>address_manager = \<lparr>pool = \<lparr>available = [\<lparr>address = ''0x54b99Dc1C2f505CF0fAA465eCdA78c872b3749cC'',
      private_key = ''0xd09777239f86e807e5fbd5db02fe4cff51dcbc77b598dfcea6c62aea4117acd8''\<rparr>, \<lparr>address = ''0xF86C6fD8d11Bd7a5C4F19301BA6ab4Da0B69B206'',
      private_key = ''0xf30129e3a83a00cc00ffd35f43e6736102a64996074a01ea92abe12767e5fa4f''\<rparr>], used = []\<rparr>, addresses_file = Some \<lparr>available = [\<lparr>address = ''0x54b99Dc1C2f505CF0fAA465eCdA78c872b3749cC'',
      private_key = ''0xd09777239f86e807e5fbd5db02fe4cff51dcbc77b598dfcea6c62aea4117acd8''\<rparr>, \<lparr>address = ''0xF86C6fD8d11Bd7a5C4F19301BA6ab4Da0B69B206'',
      private_key = ''0xf30129e3a83a00cc00ffd35f43e6736102a64996074a01ea92abe12767e5fa4f''\<rparr>], used = []\<rparr>\<rparr>, blockchain_account = None,
      key_store = \<lparr>key_files = [(''did_ssi_entity_issuer'', (''private pem'', ''public pem''))], storage_writable = True\<rparr>\<rparr> ''did:ssi:entity:issuer'' ''did:ssi:entity:alice''
      [(''type'', JStr ''VehicleOwnership''), (''vehicleVIN'', JStr ''VIN1'')] \<lparr>credential_uuid = ''c1'', issuance_date = ''2024-01-01T00:00:00'',
      proof_created = ''2024-01-01T00:00:01'',
      signature_value = Some ''c2lnbmF0dXJlIG9mIFZJTjE=''\<rparr>) = Some (JObj [(''@context'', JArr [JStr ''https://www.w3.org/2018/credentials/v1'',
          JStr ''https://www.w3.org/2018/credentials/examples/v1'']),
        (''id'', JStr ''did:ssi:credential:c1''),
        (''type'', JArr [JStr ''VerifiableCredential'', JStr ''VehicleOwnership'']),
        (''issuer'', JStr ''did:ssi:entity:issuer''),
        (''issuanceDate'', JStr ''2024-01-01T00:00:00''),
        (''credentialSubject'', JObj [(''id'', JStr ''did:ssi:entity:alice''),
          (''type'', JStr ''VehicleOwnership''), (''vehicleVIN'', JStr ''VIN1'')]),
        (''proof'', JObj [(''type'', JStr ''RsaSignature2018''),
          (''created'', JStr ''2024-01-01T00:00:01''),
          (''verificationMethod'', JStr ''did:ssi:entity:issuer#keys-1''),
          (''signatureValue'', JStr ''c2lnbmF0dXJlIG9mIFZJTjE='')])])
   \<and> (JObj [(''@context'', JArr [JStr ''https://www.w3.org/2018/credentials/v1'',
          JStr ''https://www.w3.org/2018/credentials/examples/v1'']),
        (''id'', JStr ''did:ssi:credential:c1''),
        (''type'', JArr [JStr ''VerifiableCredential'', JStr ''VehicleOwnership'']),
        (''issuer'', JStr ''did:ssi:entity:issuer''),
        (''issuanceDate'', JStr ''2024-01-01T00:00:00''),
        (''credentialSubject'', JObj [(''id'', JStr ''did:ssi:entity:alice''),
          (''type'', JStr ''VehicleOwnership''), (''vehicleVIN'', JStr ''VIN2'')]),
        (''proof'', JObj [(''type'', JStr ''RsaSignature2018''),
          (''created'', JStr ''2024-01-01T00:00:01''),
          (''verificationMethod'', JStr ''did:ssi:entity:issuer#keys-1''),
          (''signatureValue'', JStr ''c2lnbmF0dXJlIG9mIFZJTjE='')])]) \<noteq> (JObj [(''@context'', JArr [JStr ''https://www.w3.org/2018/credentials/v1'',
          JStr ''https://www.w3.org/2018/credentials/examples/v1'']),
        (''id'', JStr ''did:ssi:credential:c1''),
        (''type'', JArr [JStr ''VerifiableCredential'', JStr ''VehicleOwnership'']),
        (''issuer'', JStr ''did:ssi:entity:issuer''),
        (''issuanceDate'', JStr ''2024-01-01T00:00:00''),
        (''credentialSubject'', JObj [(''id'', JStr ''did:ssi:entity:alice''),
          (''type'', JStr ''VehicleOwnership''), (''vehicleVIN'', JStr ''VIN1'')]),
        (''proof'', JObj [(''type'', JStr ''RsaSignature2018''),
          (''created'', JStr ''2024-01-01T00:00:01''),
          (''verificationMethod'', JStr ''did:ssi:entity:issuer#keys-1''),
          (''signatureValue'', JStr ''c2lnbmF0dXJlIG9mIFZJTjE='')])])
   \<and> map_of (credentials \<lparr>users = [], didDocuments = [(''did:ssi:credential:c1'', JObj [(''@context'', JArr [JStr ''https://www.w3.org/2018/credentials/v1'',
          JStr ''https://www.w3.org/2018/credentials/examples/v1'']),
        (''id'', JStr ''did:ssi:credential:c1''),
        (''type'', JArr [JStr ''VerifiableCredential'', JStr ''VehicleOwnership'']),
        (''issuer'', JStr ''did:ssi:entity:issuer''),
        (''issuanceDate'', JStr ''2024-01-01T00:00:00''),
        (''credentialSubject'', JObj [(''id'', JStr ''did:ssi:entity:alice''),
          (''type'', JStr ''VehicleOwnership''), (''vehicleVIN'', JStr ''VIN2'')]),
        (''proof'', JObj [(''type'', JStr ''RsaSignature2018''),
          (''created'', JStr ''2024-01-01T00:00:01''),
          (''verificationMethod'', JStr ''did:ssi:entity:issuer#keys-1''),
          (''signatureValue'', JStr ''c2lnbmF0dXJlIG9mIFZJTjE='')])])], credentials = [(''did:ssi:credential:c1'', JObj [(''@context'', JArr [JStr ''https://www.w3.org/2018/credentials/v1'',
          JStr ''https://www.w3.org/2018/credentials/examples/v1'']),
        (''id'', JStr ''did:ssi:credential:c1''),
        (''type'', JArr [JStr ''VerifiableCredential'', JStr ''VehicleOwnership'']),
        (''issuer'', JStr ''did:ssi:entity:issuer''),
        (''issuanceDate'', JStr ''2024-01-01T00:00:00''),
        (''credentialSubject'', JObj [(''id'', JStr ''did:ssi:entity:alice''),
          (''type'', JStr ''VehicleOwnership''), (''vehicleVIN'', JStr ''VIN2'')]),
        (''proof'', JObj [(''type'', JStr ''RsaSignature2018''),
          (''created'', JStr ''2024-01-01T00:00:01''),
          (''verificationMethod'', JStr ''did:ssi:entity:issuer#keys-1''),
          (''signatureValue'', JStr ''c2lnbmF0dXJlIG9mIFZJTjE='')])])], interactions = [],
      eth_balance = [], users_raising = [], reads_raising = [], failing_txs = []\<rparr>) ''did:ssi:credential:c1'' = Some (JObj [(''@context'', JArr [JStr ''https://www.w3.org/2018/credentials/v1'',
          JStr ''https://www.w3.org/2018/credentials/examples/v1'']),
        (''id'', JStr ''did:ssi:credential:c1''),
        (''type'', JArr [JStr ''VerifiableCredential'', JStr ''VehicleOwnership'']),
        (''issuer'', JStr ''did:ssi:entity:issuer''),
        (''issuanceDate'', JStr ''2024-01-01T00:00:00''),
        (''credentialSubject'', JObj [(''id'', JStr ''did:ssi:entity:alice''),
          (''type'', JStr ''VehicleOwnership''), (''vehicleVIN'', JStr ''VIN2'')]),
        (''proof'', JObj [(''type'', JStr ''RsaSignature2018''),
          (''created'', JStr ''2024-01-01T00:00:01''),
          (''verificationMethod'', JStr ''did:ssi:entity:issuer#keys-1''),
          (''signatureValue'', JStr ''c2lnbmF0dXJlIG9mIFZJTjE='')])])
   \<and> verify_credential \<lparr>users = [], didDocuments = [(''did:ssi:credential:c1'', JObj [(''@context'', JArr [JStr ''https://www.w3.org/2018/credentials/v1'',
          JStr ''https://www.w3.org/2018/credentials/examples/v1'']),
        (''id'', JStr ''did:ssi:credential:c1''),
        (''type'', JArr [JStr ''VerifiableCredential'', JStr ''VehicleOwnership'']),
        (''issuer'', JStr ''did:ssi:entity:issuer''),
        (''issuanceDate'', JStr ''2024-01-01T00:00:00''),
        (''credentialSubject'', JObj [(''id'', JStr ''did:ssi:entity:alice''),
          (''type'', JStr ''VehicleOwnership''), (''vehicleVIN'', JStr ''VIN2'')]),
        (''proof'', JObj [(''type'', JStr ''RsaSignature2018''),
          (''created'', JStr ''2024-01-01T00:00:01''),
          (''verificationMethod'', JStr ''did:ssi:entity:issuer#keys-1''),
          (''signatureValue'', JStr ''c2lnbmF0dXJlIG9mIFZJTjE='')])])], credentials = [(''did:ssi:credential:c1'', JObj [(''@context'', JArr [JStr ''https://www.w3.org/2018/credentials/v1'',
          JStr ''https://www.w3.org/2018/credentials/examples/v1'']),
        (''id'', JStr ''did:ssi:credential:c1''),
        (''type'', JArr [JStr ''VerifiableCredential'', JStr ''VehicleOwnership'']),
        (''issuer'', JStr ''did:ssi:entity:issuer''),
        (''issuanceDate'', JStr ''2024-01-01T00:00:00''),
        (''credentialSubject'', JObj [(''id'', JStr ''did:ssi:entity:alice''),
          (''type'', JStr ''VehicleOwnership''), (''vehicleVIN'', JStr ''VIN2'')]),
        (''proof'', JObj [(''type'', JStr ''RsaSignature2018''),
          (''created'', JStr ''2024-01-01T00:00:01''),
          (''verificationMethod'', JStr ''did:ssi:entity:issuer#keys-1''),
          (''signatureValue'', JStr ''c2lnbmF0dXJlIG9mIFZJTjE='')])])], interactions = [],
      eth_balance = [], users_raising = [], reads_raising = [], failing_txs = []\<rparr> ''did:ssi:credential:c1'' = Some (JObj [(''@context'', JArr [JStr ''https://www.w3.org/2018/credentials/v1'',
          JStr ''https://www.w3.org/2018/credentials/examples/v1'']),
        (''id'', JStr ''did:ssi:credential:c1''),
        (''type'', JArr [JStr ''VerifiableCredential'', JStr ''VehicleOwnership'']),
        (''issuer'', JStr ''did:ssi:entity:issuer''),
        (''issuanceDate'', JStr ''2024-01-01T00:00:00''),
        (''credentialSubject'', JObj [(''id'', JStr ''did:ssi:entity:alice''),
          (''type'', JStr ''VehicleOwnership''), (''vehicleVIN'', JStr ''VIN2'')]),
        (''proof'', JObj [(''type'', JStr ''RsaSignature2018''),
          (''created'', JStr ''2024-01-01T00:00:01''),
          (''verificationMethod'', JStr ''did:ssi:entity:issuer#keys-1''),
          (''signatureValue'', JStr ''c2lnbmF0dXJlIG9mIFZJTjE='')])])
   \<and> truthy (JObj [(''@context'', JArr [JStr ''https://www.w3.org/2018/credentials/v1'',
          JStr ''https://www.w3.org/2018/credentials/examples/v1'']),
        (''id'', JStr ''did:ssi:credential:c1''),
        (''type'', JArr [JStr ''VerifiableCredential'', JStr ''VehicleOwnership'']),
        (''issuer'', JStr ''did:ssi:entity:issuer''),
        (''issuanceDate'', JStr ''2024-01-01T00:00:00''),
        (''credentialSubject'', JObj [(''id'', JStr ''did:ssi:entity:alice''),
          (''type'', JStr ''VehicleOwnership''), (''vehicleVIN'', JStr ''VIN2'')]),
        (''proof'', JObj [(''type'', JStr ''RsaSignature2018''),
          (''created'', JStr ''2024-01-01T00:00:01''),
          (''verificationMethod'', JStr ''did:ssi:entity:issuer#keys-1''),
          (''signatureValue'', JStr ''c2lnbmF0dXJlIG9mIFZJTjE='')])])"
  using create_credential_example
  by (simp add: verify_credential_def get_credential_def)

end
